theory Spec2Isabelle
  imports Main
begin

section \<open>Text helpers\<close>

text \<open>
  The planner is TypeScript. Strings are modelled as \<^typ>\<open>string\<close> (a list of 8-bit
  characters); numbers that the code only ever uses as counts or day counts are
  \<^typ>\<open>nat\<close> or \<^typ>\<open>int\<close>; an optional field (\<open>field?: T\<close>) is an \<^typ>\<open>'a option\<close>;
  a thrown exception is the \<open>Inl\<close> branch of a sum.
\<close>

datatype error = TypeError string | Error string

definition isDigit :: "char \<Rightarrow> bool" where
  \<comment> \<open>the regular-expression class \<open>\d\<close>\<close>
  "isDigit c = (c \<in> set ''0123456789'')"

definition isSpace :: "char \<Rightarrow> bool" where
  \<comment> \<open>the class \<open>\s\<close>, and what \<open>String.prototype.trim\<close> strips, among 8-bit characters\<close>
  "isSpace c = (c \<in> set [CHR 0x09, CHR 0x0A, CHR 0x0B, CHR 0x0C, CHR 0x0D, CHR 0x20, CHR 0xA0])"

definition isLetterDashNumber :: "char \<Rightarrow> bool" where
  \<comment> \<open>the class \<open>[a-zA-Z0-9-]\<close>\<close>
  "isLetterDashNumber c =
     (c \<in> set ''abcdefghijklmnopqrstuvwxyzABCDEFGHIJKLMNOPQRSTUVWXYZ0123456789-'')"

definition digitVal :: "char \<Rightarrow> nat" where
  \<comment> \<open>the value of a decimal digit: its position among the digits\<close>
  "digitVal c = length (takeWhile (\<lambda>d. d \<noteq> c) ''0123456789'')"

definition parseNat :: "string \<Rightarrow> nat" where
  \<comment> \<open>\<open>parseInt(s, 10)\<close> and unary \<open>+s\<close> on a non-empty string of decimal digits\<close>
  "parseNat s = foldl (\<lambda>n c. 10 * n + digitVal c) 0 s"

definition digitChar :: "nat \<Rightarrow> char" where
  "digitChar d = ''0123456789'' ! d"

fun showNat :: "nat \<Rightarrow> string" where
  \<comment> \<open>a non-negative integer inside a template literal\<close>
  "showNat n = (if n < 10 then [digitChar n] else showNat (n div 10) @ [digitChar (n mod 10)])"

declare showNat.simps [simp del]

definition showInt :: "int \<Rightarrow> string" where
  "showInt i = (if i < 0 then CHR ''-'' # showNat (nat (- i)) else showNat (nat i))"

definition trim :: "string \<Rightarrow> string" where
  "trim s = rev (dropWhile isSpace (rev (dropWhile isSpace s)))"

fun startsWith :: "string \<Rightarrow> string \<Rightarrow> bool" where
  \<comment> \<open>\<open>startsWith s pat\<close>: \<open>pat\<close> is a prefix of \<open>s\<close>\<close>
  "startsWith s [] = True"
| "startsWith [] (p # ps) = False"
| "startsWith (c # cs) (p # ps) = (c = p \<and> startsWith cs ps)"

fun includes_str :: "string \<Rightarrow> string \<Rightarrow> bool" where
  \<comment> \<open>\<open>s.includes(pat)\<close>\<close>
  "includes_str [] pat = startsWith [] pat"
| "includes_str (c # cs) pat = (startsWith (c # cs) pat \<or> includes_str cs pat)"

fun splitOn :: "char \<Rightarrow> string \<Rightarrow> string list" where
  \<comment> \<open>\<open>s.split(sep)\<close> for a one-character separator\<close>
  "splitOn sep [] = [[]]"
| "splitOn sep (c # cs) =
     (if c = sep then [] # splitOn sep cs
      else (case splitOn sep cs of [] \<Rightarrow> [[c]] | w # ws \<Rightarrow> (c # w) # ws))"

section \<open>Version strings\<close>

subsection \<open>cleanVersion\<close>

text \<open>
  \<open>cleanVersion\<close> is \<open>version.match(/v?(\d+\.\d+\.\d+)/)\<close>: the leftmost place where an
  optional \<open>v\<close> and a dotted triple of digit runs match; the result is the triple (group
  1), or the original string when there is no match. Every \<open>\d+\<close> is greedy, and giving
  digits back can never help (what follows a shortened run is a digit, where a dot is
  needed), so the match at a position is determined by the maximal digit runs.
\<close>

definition matchTriple :: "string \<Rightarrow> string option" where
  \<comment> \<open>\<open>\d+\.\d+\.\d+\<close> matched at the start of the string\<close>
  "matchTriple s =
     (let d1 = takeWhile isDigit s; r1 = dropWhile isDigit s in
      if d1 = [] then None
      else (case r1 of
        [] \<Rightarrow> None
      | c1 # s2 \<Rightarrow>
          if c1 \<noteq> CHR ''.'' then None
          else (let d2 = takeWhile isDigit s2; r2 = dropWhile isDigit s2 in
            if d2 = [] then None
            else (case r2 of
              [] \<Rightarrow> None
            | c2 # s3 \<Rightarrow>
                if c2 \<noteq> CHR ''.'' then None
                else (let d3 = takeWhile isDigit s3 in
                  if d3 = [] then None else Some (d1 @ ''.'' @ d2 @ ''.'' @ d3))))))"

definition matchVTriple :: "string \<Rightarrow> string option" where
  \<comment> \<open>\<open>v?(\d+\.\d+\.\d+)\<close> matched at the start of the string: with the \<open>v\<close> first, then without\<close>
  "matchVTriple s =
     (case s of
        [] \<Rightarrow> None
      | c # r \<Rightarrow>
          if c = CHR ''v'' then (case matchTriple r of Some m \<Rightarrow> Some m | None \<Rightarrow> matchTriple s)
          else matchTriple s)"

fun searchTriple :: "string \<Rightarrow> string option" where
  \<comment> \<open>the unanchored search: the first start position with a match\<close>
  "searchTriple [] = None"
| "searchTriple (c # cs) =
     (case matchVTriple (c # cs) of Some m \<Rightarrow> Some m | None \<Rightarrow> searchTriple cs)"

definition cleanVersion :: "string \<Rightarrow> string" where
  "cleanVersion version = (case searchTriple version of Some m \<Rightarrow> m | None \<Rightarrow> version)"

subsection \<open>The semver library\<close>

text \<open>
  The planner compares versions with the npm package \<open>semver\<close> (release 7, strict mode,
  which is what \<open>semver.parse\<close>, \<open>valid\<close>, \<open>gt\<close>, \<open>lt\<close> and \<open>diff\<close> use when called without
  options). A version is \<open>v?MAJOR.MINOR.PATCH(-PRERELEASE)?(+BUILD)?\<close> after trimming,
  each number without leading zeros and at most \<open>Number.MAX_SAFE_INTEGER\<close>, the whole
  string at most 256 characters. The constructor throws a \<open>TypeError\<close> on anything else,
  and so do \<open>gt\<close>, \<open>lt\<close> and \<open>diff\<close>; \<open>parse\<close> and \<open>valid\<close> return \<open>null\<close> instead.
  The library compares two numeric prerelease identifiers as doubles (unary \<open>+\<close>), so
  \<open>toDouble\<close> rounds each to the nearest double first. The prerelease cases of
  \<open>diff\<close> follow release 7.5.2 and later; the planner only passes \<open>diff\<close> the results
  of \<open>cleanVersion\<close>, which carry no prerelease tag, and there every release agrees.
\<close>

datatype prereleaseId = NumId nat | StrId string

record SemVer =
  major :: nat
  minor :: nat
  patch :: nat
  prerelease :: "prereleaseId list"

definition MAX_LENGTH :: nat where
  "MAX_LENGTH = 256"

definition MAX_SAFE_INTEGER :: nat where
  "MAX_SAFE_INTEGER = 9007199254740991"

definition numericIdentifier :: "string \<Rightarrow> bool" where
  \<comment> \<open>\<open>0|[1-9]\d*\<close>\<close>
  "numericIdentifier s = (s \<noteq> [] \<and> list_all isDigit s \<and> (length s = 1 \<or> hd s \<noteq> CHR ''0''))"

definition prereleaseIdentifier :: "string \<Rightarrow> bool" where
  \<comment> \<open>\<open>0|[1-9]\d*\<close> or \<open>\d*[a-zA-Z-][a-zA-Z0-9-]*\<close>\<close>
  "prereleaseIdentifier s =
     (s \<noteq> [] \<and> list_all isLetterDashNumber s \<and> (if list_all isDigit s then numericIdentifier s else True))"

definition buildIdentifier :: "string \<Rightarrow> bool" where
  \<comment> \<open>\<open>[a-zA-Z0-9-]+\<close>\<close>
  "buildIdentifier s = (s \<noteq> [] \<and> list_all isLetterDashNumber s)"

definition toIdentifier :: "string \<Rightarrow> prereleaseId" where
  "toIdentifier s = (if list_all isDigit s then NumId (parseNat s) else StrId s)"

definition matchTail :: "string \<Rightarrow> string list option" where
  \<comment> \<open>what may follow the three numbers: nothing, \<open>-pre.release\<close>, \<open>+build\<close>, or both in
      that order; the result is the list of prerelease identifiers\<close>
  "matchTail r =
     (let pre = takeWhile (\<lambda>c. c \<noteq> CHR ''+'') r; bld = dropWhile (\<lambda>c. c \<noteq> CHR ''+'') r;
          buildOk = (case bld of [] \<Rightarrow> True | _ # b \<Rightarrow> list_all buildIdentifier (splitOn CHR ''.'' b))
      in case pre of
           [] \<Rightarrow> if buildOk then Some [] else None
         | c # p \<Rightarrow>
             if c = CHR ''-'' \<and> list_all prereleaseIdentifier (splitOn CHR ''.'' p) \<and> buildOk
             then Some (splitOn CHR ''.'' p) else None)"

definition matchFull :: "string \<Rightarrow> (string \<times> string \<times> string \<times> string list) option" where
  \<comment> \<open>the regular expression \<open>FULL\<close>, anchored at both ends: the three numbers as text and
      the prerelease identifiers\<close>
  "matchFull s =
     (let s1 = (case s of [] \<Rightarrow> [] | c # r \<Rightarrow> if c = CHR ''v'' then r else s);
          d1 = takeWhile isDigit s1; r1 = dropWhile isDigit s1 in
      if \<not> numericIdentifier d1 then None
      else (case r1 of
        [] \<Rightarrow> None
      | c1 # s2 \<Rightarrow>
          if c1 \<noteq> CHR ''.'' then None
          else (let d2 = takeWhile isDigit s2; r2 = dropWhile isDigit s2 in
            if \<not> numericIdentifier d2 then None
            else (case r2 of
              [] \<Rightarrow> None
            | c2 # s3 \<Rightarrow>
                if c2 \<noteq> CHR ''.'' then None
                else (let d3 = takeWhile isDigit s3; r3 = dropWhile isDigit s3 in
                  if \<not> numericIdentifier d3 then None
                  else (case matchTail r3 of
                    None \<Rightarrow> None
                  | Some pre \<Rightarrow> Some (d1, d2, d3, pre)))))))"

definition newSemVer :: "string \<Rightarrow> error + SemVer" where
  \<comment> \<open>\<open>new SemVer(version)\<close>\<close>
  "newSemVer version =
     (if length version > MAX_LENGTH then Inl (TypeError ''version is longer than 256 characters'')
      else (case matchFull (trim version) of
        None \<Rightarrow> Inl (TypeError (''Invalid Version: '' @ version))
      | Some (m1, m2, m3, pre) \<Rightarrow>
          if parseNat m1 > MAX_SAFE_INTEGER then Inl (TypeError ''Invalid major version'')
          else if parseNat m2 > MAX_SAFE_INTEGER then Inl (TypeError ''Invalid minor version'')
          else if parseNat m3 > MAX_SAFE_INTEGER then Inl (TypeError ''Invalid patch version'')
          else Inr \<lparr>major = parseNat m1, minor = parseNat m2, patch = parseNat m3,
                    prerelease = map toIdentifier pre\<rparr>))"

definition semver_parse :: "string \<Rightarrow> SemVer option" where
  \<comment> \<open>\<open>semver.parse(version)\<close>: \<open>null\<close> where the constructor throws\<close>
  "semver_parse version = (case newSemVer version of Inl e \<Rightarrow> None | Inr v \<Rightarrow> Some v)"

definition semver_valid :: "string \<Rightarrow> bool" where
  \<comment> \<open>the truth value of \<open>semver.valid(version)\<close>\<close>
  "semver_valid version = (semver_parse version \<noteq> None)"

fun strLess :: "string \<Rightarrow> string \<Rightarrow> bool" where
  \<comment> \<open>\<open>a < b\<close> on strings: lexicographic by character code\<close>
  "strLess [] [] = False"
| "strLess [] (b # bs) = True"
| "strLess (a # as) [] = False"
| "strLess (a # as) (b # bs) =
     (if a = b then strLess as bs else (of_char a :: nat) < of_char b)"

fun bitLength :: "nat \<Rightarrow> nat" where
  \<comment> \<open>the number of binary digits of a natural number\<close>
  "bitLength n = (if n = 0 then 0 else Suc (bitLength (n div 2)))"

declare bitLength.simps [simp del]

definition toDouble :: "nat \<Rightarrow> nat" where
  \<comment> \<open>the double nearest to a natural number, ties to the even significand: the number
      itself below \<open>2^53\<close>, else its 53 leading binary digits, rounded. A version has at
      most 256 characters, so no identifier reaches the largest double\<close>
  "toDouble n =
     (if n < 2 ^ 53 then n
      else (let e = bitLength n - 53; q = n div 2 ^ e; r = n mod 2 ^ e; half = 2 ^ (e - 1)
            in (if r < half \<or> (r = half \<and> even q) then q else q + 1) * 2 ^ e))"

fun compareIdentifiers :: "prereleaseId \<Rightarrow> prereleaseId \<Rightarrow> int" where
  "compareIdentifiers (NumId a) (NumId b) =
     (if toDouble a = toDouble b then 0 else if toDouble a < toDouble b then - 1 else 1)"
| "compareIdentifiers (NumId a) (StrId b) = - 1"
| "compareIdentifiers (StrId a) (NumId b) = 1"
| "compareIdentifiers (StrId a) (StrId b) = (if a = b then 0 else if strLess a b then - 1 else 1)"

definition compareNat :: "nat \<Rightarrow> nat \<Rightarrow> int" where
  "compareNat a b = (if a = b then 0 else if a < b then - 1 else 1)"

definition compareMain :: "SemVer \<Rightarrow> SemVer \<Rightarrow> int" where
  "compareMain a b =
     (if compareNat (major a) (major b) \<noteq> 0 then compareNat (major a) (major b)
      else if compareNat (minor a) (minor b) \<noteq> 0 then compareNat (minor a) (minor b)
      else compareNat (patch a) (patch b))"

fun comparePreList :: "prereleaseId list \<Rightarrow> prereleaseId list \<Rightarrow> int" where
  \<comment> \<open>the \<open>do ... while (++i)\<close> loop of \<open>comparePre\<close>\<close>
  "comparePreList [] [] = 0"
| "comparePreList (a # as) [] = 1"
| "comparePreList [] (b # bs) = - 1"
| "comparePreList (a # as) (b # bs) =
     (if a = b then comparePreList as bs else compareIdentifiers a b)"

definition comparePre :: "SemVer \<Rightarrow> SemVer \<Rightarrow> int" where
  "comparePre a b =
     (if prerelease a \<noteq> [] \<and> prerelease b = [] then - 1
      else if prerelease a = [] \<and> prerelease b \<noteq> [] then 1
      else if prerelease a = [] \<and> prerelease b = [] then 0
      else comparePreList (prerelease a) (prerelease b))"

definition compareSemVer :: "SemVer \<Rightarrow> SemVer \<Rightarrow> int" where
  \<comment> \<open>\<open>a.compare(b)\<close>\<close>
  "compareSemVer a b = (if compareMain a b \<noteq> 0 then compareMain a b else comparePre a b)"

definition semver_compare :: "string \<Rightarrow> string \<Rightarrow> error + int" where
  \<comment> \<open>\<open>semver.compare(a, b)\<close>: both constructors run, the first one first\<close>
  "semver_compare a b =
     (case newSemVer a of
        Inl e \<Rightarrow> Inl e
      | Inr va \<Rightarrow> (case newSemVer b of Inl e \<Rightarrow> Inl e | Inr vb \<Rightarrow> Inr (compareSemVer va vb)))"

definition semver_gt :: "string \<Rightarrow> string \<Rightarrow> error + bool" where
  "semver_gt a b = (case semver_compare a b of Inl e \<Rightarrow> Inl e | Inr c \<Rightarrow> Inr (c > 0))"

definition semver_lt :: "string \<Rightarrow> string \<Rightarrow> error + bool" where
  "semver_lt a b = (case semver_compare a b of Inl e \<Rightarrow> Inl e | Inr c \<Rightarrow> Inr (c < 0))"

definition diffSemVer :: "SemVer \<Rightarrow> SemVer \<Rightarrow> string option" where
  \<comment> \<open>the body of \<open>semver.diff\<close> once both versions are parsed; \<open>None\<close> is \<open>null\<close>\<close>
  "diffSemVer v1 v2 =
     (let comparison = compareSemVer v1 v2 in
      if comparison = 0 then None
      else (let v1Higher = (comparison > 0);
                highVersion = (if v1Higher then v1 else v2);
                lowVersion = (if v1Higher then v2 else v1);
                highHasPre = (prerelease highVersion \<noteq> []);
                lowHasPre = (prerelease lowVersion \<noteq> []);
                prefix = (if highHasPre then ''pre'' else '''')
            in if lowHasPre \<and> \<not> highHasPre \<and> patch lowVersion = 0 \<and> minor lowVersion = 0
               then Some ''major''
               else if lowHasPre \<and> \<not> highHasPre \<and> compareMain lowVersion highVersion = 0
               then (if minor lowVersion \<noteq> 0 \<and> patch lowVersion = 0 then Some ''minor''
                     else Some ''patch'')
               else if major v1 \<noteq> major v2 then Some (prefix @ ''major'')
               else if minor v1 \<noteq> minor v2 then Some (prefix @ ''minor'')
               else if patch v1 \<noteq> patch v2 then Some (prefix @ ''patch'')
               else Some ''prerelease''))"

definition semver_diff :: "string \<Rightarrow> string \<Rightarrow> error + string option" where
  \<comment> \<open>\<open>semver.diff(version1, version2)\<close>: throws where either version is invalid\<close>
  "semver_diff version1 version2 =
     (case newSemVer version1 of
        Inl e \<Rightarrow> Inl e
      | Inr v1 \<Rightarrow> (case newSemVer version2 of Inl e \<Rightarrow> Inl e | Inr v2 \<Rightarrow> Inr (diffSemVer v1 v2)))"

section \<open>Data model\<close>

text \<open>
  The interfaces of the shared type declarations, one record each. TypeScript lets two
  interfaces share a field name; a record field is a constant of the theory, so a field
  name that occurs in more than one interface (or that is a constant of HOL) carries a
  suffix naming its record: \<open>_inst\<close>, \<open>_life\<close>, \<open>_upg\<close>, \<open>_issue\<close>, \<open>_chan\<close>, \<open>_status\<close>,
  \<open>_cluster\<close>, \<open>_path\<close>, \<open>_step\<close>, \<open>_win\<close>. A \<open>Date\<close> is its time value in milliseconds.
\<close>

type_synonym Date = int

datatype LifecycleModel = PLATFORM_ALIGNED | PLATFORM_AGNOSTIC | ROLLING_RELEASE | UNKNOWN_MODEL

datatype SupportPhase = FULL_SUPPORT | MAINTENANCE_SUPPORT | END_OF_LIFE | DEPRECATED | UNKNOWN_PHASE

datatype IssueSeverity = CRITICAL | WARNING | INFO

datatype IssueType =
  VERSION_CEILING | STALE_CHANNEL | OUTDATED_VERSION | LIFECYCLE_EXPIRING | INCOMPATIBLE_CLUSTER

datatype Health = Healthy | Warning | Critical

datatype Level = High | Medium | Low

datatype StepType = Cluster | Operator | Verification

record OperatorInstallation =
  name_inst :: string
  displayName :: string
  namespace :: string
  currentVersion_inst :: string
  currentChannel_inst :: string
  catalogSource :: string
  catalogNamespace :: string
  installedAt :: Date
  updatedAt :: Date
  approved :: bool

record OperatorLifecycleInfo =
  operatorName_life :: string
  version :: string
  lifecycleModel :: LifecycleModel
  supportPhase :: SupportPhase
  fullSupportEndsAt_life :: "Date option"
  maintenanceSupportEndsAt_life :: "Date option"
  eolAt_life :: "Date option"
  minOCPVersion :: "string option"
  maxOCPVersion :: "string option"
  recommendedForOCPVersion :: "string option"

record AvailableUpgrade =
  operatorName_upg :: string
  currentVersion_upg :: string
  targetVersion :: string
  channel_upg :: string
  requiresIntermediateUpgrades :: bool
  intermediateVersions :: "string list option"
  releaseDate :: Date
  lifecycleInfo_upg :: OperatorLifecycleInfo

record UpgradeIssue =
  id_issue :: string
  operatorName_issue :: string
  severity :: IssueSeverity
  type_issue :: IssueType
  title :: string
  description_issue :: string
  recommendation :: string
  affectsClusterUpgrade :: bool
  detectedAt :: Date

record OperatorChannel =
  name_chan :: string
  currentCSV :: string
  availableVersions :: "string list"
  deprecated :: bool
  deprecationMessage :: "string option"
  availableInOCPVersion :: "string list option"

record OperatorStatus =
  installation :: OperatorInstallation
  lifecycleInfo_status :: OperatorLifecycleInfo
  availableUpgrades :: "AvailableUpgrade list"
  currentChannel_status :: OperatorChannel
  availableChannels :: "OperatorChannel list"
  issues :: "UpgradeIssue list"
  healthStatus :: Health

record ClusterVersion =
  currentVersion_cluster :: string
  desiredVersion :: string
  channel_cluster :: string
  availableUpdates :: "string list"
  isEUS :: bool
  fullSupportEndsAt_cluster :: "Date option"
  maintenanceSupportEndsAt_cluster :: "Date option"
  eolAt_cluster :: "Date option"

record UpgradeStep =
  order_step :: nat
  type_step :: StepType
  target :: string
  fromVersion :: "string option"
  toVersion :: "string option"
  channel_step :: "string option"
  description_step :: string
  estimatedDuration_step :: string
  requiredPrerequisites :: "string list"
  rollbackStrategy :: string

record UpgradePath =
  id_path :: string
  description_path :: string
  estimatedDuration_path :: string
  confidence :: Level
  steps :: "UpgradeStep list"
  benefits :: "string list"
  risks :: "string list"
  supportedUntil :: Date

record MaintenanceWindow =
  id_win :: string
  recommendedDate :: Date
  priority :: Level
  reason :: string
  affectedComponents :: "string list"
  estimatedDuration_win :: string
  upgradePath :: UpgradePath

record PlatformStatus =
  cluster :: ClusterVersion
  operators :: "OperatorStatus list"
  overallHealth :: Health
  totalIssues :: int
  criticalIssues :: int
  nextMaintenanceWindow :: "MaintenanceWindow option"
  supportExpiresIn :: "int option"

record UpgradePlannerRecommendations =
  platformStatus :: PlatformStatus
  recommendedPaths :: "UpgradePath list"
  maintenanceWindows :: "MaintenanceWindow list"
  generatedAt :: Date

text \<open>
  The wall clock: \<open>dateNow\<close> is what \<open>new Date()\<close> and \<open>Date.now()\<close> read, and
  \<open>addMonths d n\<close> is the calendar arithmetic of \<open>d.setMonth(d.getMonth() + n)\<close>, which
  depends on the time zone of the process and is left a parameter.
\<close>

record Clock =
  dateNow :: Date
  addMonths :: "Date \<Rightarrow> int \<Rightarrow> Date"

section \<open>The upgrade planner\<close>

subsection \<open>Duration and support estimates\<close>

text \<open>
  \<open>calculateTotalDuration\<close> reads each step's estimate with
  \<open>/(\d+)-?(\d+)?\s*minutes?/\<close>. At a start position the match is determined: the
  maximal digit run, a dash if one follows, the maximal second digit run if any, the
  white space, then the text \<open>minute\<close>; the groups are the two digit runs, the second
  undefined when it is absent.
\<close>

definition matchDuration :: "string \<Rightarrow> (string \<times> string option) option" where
  "matchDuration s =
     (let g1 = takeWhile isDigit s; r1 = dropWhile isDigit s in
      if g1 = [] then None
      else (let r2 = (case r1 of [] \<Rightarrow> [] | c # r \<Rightarrow> if c = CHR ''-'' then r else r1);
                g2 = takeWhile isDigit r2;
                r3 = dropWhile isSpace (dropWhile isDigit r2)
            in if startsWith r3 ''minute'' then Some (g1, if g2 = [] then None else Some g2)
               else None))"

fun searchDuration :: "string \<Rightarrow> (string \<times> string option) option" where
  "searchDuration [] = None"
| "searchDuration (c # cs) =
     (case matchDuration (c # cs) of Some m \<Rightarrow> Some m | None \<Rightarrow> searchDuration cs)"

definition stepMinutes :: "UpgradeStep \<Rightarrow> nat" where
  \<comment> \<open>what one step adds to \<open>totalMinutes\<close>: \<open>parseInt(match[2] || match[1], 10)\<close>, or
      nothing without a match. The code adds doubles; the natural numbers here are the
      same numbers as long as the total stays at most \<open>MAX_SAFE_INTEGER\<close>, which is where
      the theorems about durations are stated\<close>
  "stepMinutes step =
     (case searchDuration (estimatedDuration_step step) of
        None \<Rightarrow> 0
      | Some (m1, m2) \<Rightarrow> parseNat (case m2 of Some g \<Rightarrow> g | None \<Rightarrow> m1))"

definition totalMinutes :: "UpgradeStep list \<Rightarrow> nat" where
  \<comment> \<open>the \<open>for\<close> loop of \<open>calculateTotalDuration\<close>\<close>
  "totalMinutes stps = foldl (\<lambda>total step. total + stepMinutes step) 0 stps"

definition calculateTotalDuration :: "UpgradeStep list \<Rightarrow> string" where
  "calculateTotalDuration stps =
     (if totalMinutes stps < 60 then showNat (totalMinutes stps) @ '' minutes''
      else showNat (totalMinutes stps div 60) @ ''h '' @ showNat (totalMinutes stps mod 60) @ ''m'')"

definition calculateSupportedUntil :: "Clock \<Rightarrow> PlatformStatus \<Rightarrow> UpgradeStep list \<Rightarrow> Date" where
  "calculateSupportedUntil clk status stps = addMonths clk (dateNow clk) 18"

definition extractAffectedComponents :: "UpgradePath \<Rightarrow> string list" where
  "extractAffectedComponents path = map target (filter (\<lambda>s. type_step s \<noteq> Verification) (steps path))"

subsection \<open>Choosing an upgrade for one operator\<close>

fun reduceClosest :: "string \<Rightarrow> AvailableUpgrade \<Rightarrow> AvailableUpgrade list \<Rightarrow> error + AvailableUpgrade" where
  \<comment> \<open>the \<open>reduce\<close> of \<open>findConservativeUpgrade\<close>, from the accumulator \<open>closest\<close> over the
      elements still to visit; \<open>semver.diff\<close> is pure, so its two calls are one here\<close>
  "reduceClosest currentVersion closest [] = Inr closest"
| "reduceClosest currentVersion closest (current # rest) =
     (let closestVersion = cleanVersion (targetVersion closest);
          currentTargetVersion = cleanVersion (targetVersion current)
      in case semver_diff currentVersion currentTargetVersion of
           Inl e \<Rightarrow> Inl e
         | Inr d \<Rightarrow>
             if d = Some ''patch'' then reduceClosest currentVersion current rest
             else if d = Some ''minor'' then
               (case semver_lt currentTargetVersion closestVersion of
                  Inl e \<Rightarrow> Inl e
                | Inr b \<Rightarrow> reduceClosest currentVersion (if b then current else closest) rest)
             else reduceClosest currentVersion closest rest)"

definition findConservativeUpgrade :: "OperatorStatus \<Rightarrow> error + AvailableUpgrade option" where
  \<comment> \<open>\<open>reduce\<close> without an initial value starts from the first element\<close>
  "findConservativeUpgrade operator =
     (case availableUpgrades operator of
        [] \<Rightarrow> Inr None
      | first # rest \<Rightarrow>
          (let currentVersion = cleanVersion (currentVersion_inst (installation operator)) in
           if semver_parse currentVersion = None then Inr (Some first)
           else (case reduceClosest currentVersion first rest of
                   Inl e \<Rightarrow> Inl e
                 | Inr u \<Rightarrow> Inr (Some u))))"

fun reduceLatest :: "AvailableUpgrade \<Rightarrow> AvailableUpgrade list \<Rightarrow> error + AvailableUpgrade" where
  \<comment> \<open>the \<open>reduce\<close> of \<open>generateAggressivePath\<close>\<close>
  "reduceLatest latest [] = Inr latest"
| "reduceLatest latest (current # rest) =
     (case semver_gt (cleanVersion (targetVersion current)) (cleanVersion (targetVersion latest)) of
        Inl e \<Rightarrow> Inl e
      | Inr b \<Rightarrow> reduceLatest (if b then current else latest) rest)"

definition findBalancedUpgrade :: "OperatorStatus \<Rightarrow> AvailableUpgrade option" where
  "findBalancedUpgrade operator =
     (if length (availableUpgrades operator) = 0 then None
      else (let stableUpgrades =
                  filter (\<lambda>u. includes_str (channel_upg u) ''stable'' \<or> includes_str (channel_upg u) ''recommended'')
                    (availableUpgrades operator)
            in if length stableUpgrades > 0 then Some (last stableUpgrades)
               else Some (availableUpgrades operator ! (length (availableUpgrades operator) div 2))))"

definition isSignificantlyOutdated :: "OperatorStatus \<Rightarrow> error + bool" where
  "isSignificantlyOutdated operator =
     (if length (availableUpgrades operator) = 0 then Inr False
      else (let currentVersion = cleanVersion (currentVersion_inst (installation operator));
                latestVersion = cleanVersion (targetVersion (last (availableUpgrades operator)))
            in if \<not> semver_valid currentVersion \<or> \<not> semver_valid latestVersion then Inr False
               else (case semver_diff currentVersion latestVersion of
                       Inl e \<Rightarrow> Inl e
                     | Inr d \<Rightarrow> Inr (d = Some ''minor'' \<or> d = Some ''major''))))"

subsection \<open>The critical-issues path\<close>

definition criticalVerificationStep :: "nat \<Rightarrow> UpgradeStep" where
  "criticalVerificationStep n =
     \<lparr>order_step = n, type_step = Verification, target = ''cluster'',
      fromVersion = None, toVersion = None, channel_step = None,
      description_step = ''Verify cluster health and backup current state'',
      estimatedDuration_step = ''15 minutes'',
      requiredPrerequisites = [''Cluster backup'', ''etcd snapshot''],
      rollbackStrategy = ''Restore from backup''\<rparr>"

definition criticalOperatorStep :: "nat \<Rightarrow> OperatorStatus \<Rightarrow> AvailableUpgrade \<Rightarrow> UpgradeStep" where
  "criticalOperatorStep n operator upgrade =
     \<lparr>order_step = n, type_step = Operator, target = name_inst (installation operator),
      fromVersion = Some (currentVersion_inst (installation operator)),
      toVersion = Some (targetVersion upgrade), channel_step = Some (channel_upg upgrade),
      description_step = ''Upgrade '' @ displayName (installation operator) @ '' to resolve critical issues'',
      estimatedDuration_step = ''10-20 minutes'',
      requiredPrerequisites = [''Review operator documentation'', ''Check for breaking changes''],
      rollbackStrategy = ''Uninstall and reinstall previous version''\<rparr>"

definition criticalClusterStep :: "nat \<Rightarrow> PlatformStatus \<Rightarrow> string \<Rightarrow> UpgradeStep" where
  "criticalClusterStep n status nextVersion =
     \<lparr>order_step = n, type_step = Cluster, target = ''OpenShift Cluster'',
      fromVersion = Some (currentVersion_cluster (cluster status)),
      toVersion = Some nextVersion, channel_step = Some (channel_cluster (cluster status)),
      description_step = ''Upgrade OpenShift to '' @ nextVersion,
      estimatedDuration_step = ''45-90 minutes'',
      requiredPrerequisites = [''All operators compatible'', ''Cluster health verified'', ''Backup completed''],
      rollbackStrategy = ''Not supported - ensure all prerequisites are met''\<rparr>"

fun criticalOperatorSteps :: "OperatorStatus list \<Rightarrow> UpgradeStep list \<times> nat \<Rightarrow> UpgradeStep list \<times> nat" where
  \<comment> \<open>the loop over \<open>criticalOperators\<close>; the state is \<open>steps\<close> and \<open>order\<close>\<close>
  "criticalOperatorSteps [] (stps, n) = (stps, n)"
| "criticalOperatorSteps (operator # rest) (stps, n) =
     (case availableUpgrades operator of
        [] \<Rightarrow> criticalOperatorSteps rest (stps, n)
      | upgrade # _ \<Rightarrow>
          criticalOperatorSteps rest (stps @ [criticalOperatorStep n operator upgrade], n + 1))"

definition generateCriticalIssuePath :: "Clock \<Rightarrow> PlatformStatus \<Rightarrow> UpgradePath option" where
  "generateCriticalIssuePath clk status =
     (let criticalOperators =
            filter (\<lambda>op. list_ex (\<lambda>i. severity i = CRITICAL) (issues op)) (operators status)
      in if length criticalOperators = 0 then None
         else (let (stps1, n1) = criticalOperatorSteps criticalOperators ([criticalVerificationStep 1], 2);
                   stps =
                     (case availableUpdates (cluster status) of
                        [] \<Rightarrow> stps1
                      | nextVersion # _ \<Rightarrow> stps1 @ [criticalClusterStep n1 status nextVersion])
               in Some
                    \<lparr>id_path = ''critical-issues-path'',
                     description_path = ''Address critical issues that block cluster operations and upgrades'',
                     estimatedDuration_path = calculateTotalDuration stps,
                     confidence = High,
                     steps = stps,
                     benefits = [''Resolves blocking issues'', ''Enables cluster upgrade'', ''Reduces immediate risks''],
                     risks = [''May require multiple operator updates'', ''Some downtime expected''],
                     supportedUntil = calculateSupportedUntil clk status stps\<rparr>))"

subsection \<open>The conservative path\<close>

definition verificationStep :: "nat \<Rightarrow> UpgradeStep" where
  \<comment> \<open>the first step of the conservative, aggressive and balanced paths\<close>
  "verificationStep n =
     \<lparr>order_step = n, type_step = Verification, target = ''cluster'',
      fromVersion = None, toVersion = None, channel_step = None,
      description_step = ''Verify cluster health and backup'',
      estimatedDuration_step = ''15 minutes'',
      requiredPrerequisites = [''Cluster backup''],
      rollbackStrategy = ''Restore from backup''\<rparr>"

definition conservativeOperatorStep :: "nat \<Rightarrow> OperatorStatus \<Rightarrow> AvailableUpgrade \<Rightarrow> UpgradeStep" where
  "conservativeOperatorStep n operator conservativeUpgrade =
     \<lparr>order_step = n, type_step = Operator, target = name_inst (installation operator),
      fromVersion = Some (currentVersion_inst (installation operator)),
      toVersion = Some (targetVersion conservativeUpgrade),
      channel_step = Some (channel_upg conservativeUpgrade),
      description_step = ''Conservative upgrade of '' @ displayName (installation operator),
      estimatedDuration_step = ''10-20 minutes'',
      requiredPrerequisites = [''Review release notes''],
      rollbackStrategy = ''Reinstall previous version''\<rparr>"

fun conservativeOperatorSteps ::
  "OperatorStatus list \<Rightarrow> UpgradeStep list \<times> nat \<Rightarrow> error + UpgradeStep list \<times> nat" where
  "conservativeOperatorSteps [] (stps, n) = Inr (stps, n)"
| "conservativeOperatorSteps (operator # rest) (stps, n) =
     (case findConservativeUpgrade operator of
        Inl e \<Rightarrow> Inl e
      | Inr None \<Rightarrow> conservativeOperatorSteps rest (stps, n)
      | Inr (Some conservativeUpgrade) \<Rightarrow>
          conservativeOperatorSteps rest
            (stps @ [conservativeOperatorStep n operator conservativeUpgrade], n + 1))"

definition generateConservativePath :: "Clock \<Rightarrow> PlatformStatus \<Rightarrow> error + UpgradePath option" where
  "generateConservativePath clk status =
     (let operatorsWithWarnings =
            filter (\<lambda>op. list_ex (\<lambda>i. severity i = WARNING) (issues op)) (operators status)
      in case conservativeOperatorSteps operatorsWithWarnings ([verificationStep 1], 2) of
           Inl e \<Rightarrow> Inl e
         | Inr (stps, n) \<Rightarrow>
             if length stps = 1 then Inr None
             else Inr (Some
                    \<lparr>id_path = ''conservative-path'',
                     description_path = ''Minimal upgrades to extend support without major version changes'',
                     estimatedDuration_path = calculateTotalDuration stps,
                     confidence = High,
                     steps = stps,
                     benefits = [''Minimal risk'', ''Extends support period'', ''Small scope of changes''],
                     risks = [''May need another upgrade soon'', ''Not addressing all available updates''],
                     supportedUntil = calculateSupportedUntil clk status stps\<rparr>))"

subsection \<open>The aggressive path\<close>

definition aggressiveOperatorStep :: "nat \<Rightarrow> OperatorStatus \<Rightarrow> AvailableUpgrade \<Rightarrow> UpgradeStep" where
  "aggressiveOperatorStep n operator latestUpgrade =
     \<lparr>order_step = n, type_step = Operator, target = name_inst (installation operator),
      fromVersion = Some (currentVersion_inst (installation operator)),
      toVersion = Some (targetVersion latestUpgrade),
      channel_step = Some (channel_upg latestUpgrade),
      description_step = ''Upgrade '' @ displayName (installation operator) @ '' to latest version'',
      estimatedDuration_step = ''10-20 minutes'',
      requiredPrerequisites = [''Review all release notes'', ''Check for breaking changes''],
      rollbackStrategy = ''Reinstall previous version''\<rparr>"

definition aggressiveClusterStep :: "nat \<Rightarrow> PlatformStatus \<Rightarrow> string \<Rightarrow> UpgradeStep" where
  "aggressiveClusterStep n status latestVersion =
     \<lparr>order_step = n, type_step = Cluster, target = ''OpenShift Cluster'',
      fromVersion = Some (currentVersion_cluster (cluster status)),
      toVersion = Some latestVersion, channel_step = Some (channel_cluster (cluster status)),
      description_step = ''Upgrade OpenShift to latest version '' @ latestVersion,
      estimatedDuration_step = ''45-90 minutes'',
      requiredPrerequisites = [''All operators compatible'', ''Cluster health verified'', ''Backup completed''],
      rollbackStrategy = ''Not supported - ensure all prerequisites are met''\<rparr>"

fun aggressiveOperatorSteps ::
  "OperatorStatus list \<Rightarrow> UpgradeStep list \<times> nat \<Rightarrow> error + UpgradeStep list \<times> nat" where
  "aggressiveOperatorSteps [] (stps, n) = Inr (stps, n)"
| "aggressiveOperatorSteps (operator # rest) (stps, n) =
     (case availableUpgrades operator of
        [] \<Rightarrow> aggressiveOperatorSteps rest (stps, n)
      | first # others \<Rightarrow>
          (case reduceLatest first others of
             Inl e \<Rightarrow> Inl e
           | Inr latestUpgrade \<Rightarrow>
               aggressiveOperatorSteps rest
                 (stps @ [aggressiveOperatorStep n operator latestUpgrade], n + 1)))"

definition generateAggressivePath :: "Clock \<Rightarrow> PlatformStatus \<Rightarrow> error + UpgradePath option" where
  "generateAggressivePath clk status =
     (case aggressiveOperatorSteps (operators status) ([verificationStep 1], 2) of
        Inl e \<Rightarrow> Inl e
      | Inr (stps1, n1) \<Rightarrow>
          (let stps =
                 (if length (availableUpdates (cluster status)) > 0
                  then stps1 @ [aggressiveClusterStep n1 status
                                  (availableUpdates (cluster status)
                                     ! (length (availableUpdates (cluster status)) - 1))]
                  else stps1)
           in if length stps = 1 then Inr None
              else Inr (Some
                     \<lparr>id_path = ''aggressive-path'',
                      description_path = ''Upgrade all components to latest versions for maximum support duration'',
                      estimatedDuration_path = calculateTotalDuration stps,
                      confidence = Medium,
                      steps = stps,
                      benefits = [''Maximum support duration'', ''Latest features and fixes'',
                                  ''Fewest future maintenance windows''],
                      risks = [''More potential for breaking changes'', ''Longer maintenance window'',
                               ''More testing required''],
                      supportedUntil = calculateSupportedUntil clk status stps\<rparr>)))"

subsection \<open>The balanced path\<close>

definition balancedOperatorStep :: "nat \<Rightarrow> OperatorStatus \<Rightarrow> AvailableUpgrade \<Rightarrow> UpgradeStep" where
  "balancedOperatorStep n operator targetUpgrade =
     \<lparr>order_step = n, type_step = Operator, target = name_inst (installation operator),
      fromVersion = Some (currentVersion_inst (installation operator)),
      toVersion = Some (targetVersion targetUpgrade),
      channel_step = Some (channel_upg targetUpgrade),
      description_step = ''Upgrade '' @ displayName (installation operator) @ '' to recommended version'',
      estimatedDuration_step = ''10-20 minutes'',
      requiredPrerequisites = [''Review release notes''],
      rollbackStrategy = ''Reinstall previous version''\<rparr>"

definition balancedClusterStep :: "nat \<Rightarrow> PlatformStatus \<Rightarrow> string \<Rightarrow> UpgradeStep" where
  "balancedClusterStep n status targetVersion' =
     \<lparr>order_step = n, type_step = Cluster, target = ''OpenShift Cluster'',
      fromVersion = Some (currentVersion_cluster (cluster status)),
      toVersion = Some targetVersion', channel_step = Some (channel_cluster (cluster status)),
      description_step = ''Upgrade OpenShift to '' @ targetVersion',
      estimatedDuration_step = ''45-90 minutes'',
      requiredPrerequisites = [''All operators compatible'', ''Cluster health verified''],
      rollbackStrategy = ''Not supported''\<rparr>"

definition shouldUpgrade :: "OperatorStatus \<Rightarrow> error + bool" where
  \<comment> \<open>\<open>operator.issues.length > 0 || this.isSignificantlyOutdated(operator)\<close>\<close>
  "shouldUpgrade operator =
     (if length (issues operator) > 0 then Inr True else isSignificantlyOutdated operator)"

fun balancedOperatorSteps ::
  "OperatorStatus list \<Rightarrow> UpgradeStep list \<times> nat \<Rightarrow> error + UpgradeStep list \<times> nat" where
  "balancedOperatorSteps [] (stps, n) = Inr (stps, n)"
| "balancedOperatorSteps (operator # rest) (stps, n) =
     (case shouldUpgrade operator of
        Inl e \<Rightarrow> Inl e
      | Inr should \<Rightarrow>
          if should \<and> length (availableUpgrades operator) > 0 then
            (case findBalancedUpgrade operator of
               None \<Rightarrow> balancedOperatorSteps rest (stps, n)
             | Some targetUpgrade \<Rightarrow>
                 balancedOperatorSteps rest
                   (stps @ [balancedOperatorStep n operator targetUpgrade], n + 1))
          else balancedOperatorSteps rest (stps, n))"

definition generateBalancedPath :: "Clock \<Rightarrow> PlatformStatus \<Rightarrow> error + UpgradePath option" where
  "generateBalancedPath clk status =
     (case balancedOperatorSteps (operators status) ([verificationStep 1], 2) of
        Inl e \<Rightarrow> Inl e
      | Inr (stps1, n1) \<Rightarrow>
          (let stps =
                 (case availableUpdates (cluster status) of
                    [] \<Rightarrow> stps1
                  | targetVersion' # _ \<Rightarrow> stps1 @ [balancedClusterStep n1 status targetVersion'])
           in if length stps = 1 then Inr None
              else Inr (Some
                     \<lparr>id_path = ''balanced-path'',
                      description_path = ''Optimal balance of risk, effort, and support duration'',
                      estimatedDuration_path = calculateTotalDuration stps,
                      confidence = High,
                      steps = stps,
                      benefits = [''Good balance of risk and reward'', ''Addresses key issues'',
                                  ''Reasonable maintenance window'', ''Extended support period''],
                      risks = [''Some operator updates required'', ''Moderate testing effort''],
                      supportedUntil = calculateSupportedUntil clk status stps\<rparr>)))"

subsection \<open>All paths, the windows and the bundle\<close>

definition pushPath :: "UpgradePath list \<Rightarrow> UpgradePath option \<Rightarrow> UpgradePath list" where
  \<comment> \<open>\<open>if (path) { paths.push(path) }\<close>\<close>
  "pushPath paths path = (case path of None \<Rightarrow> paths | Some p \<Rightarrow> paths @ [p])"

definition generateUpgradePaths :: "Clock \<Rightarrow> PlatformStatus \<Rightarrow> error + UpgradePath list" where
  "generateUpgradePaths clk status =
     (let paths1 = pushPath [] (generateCriticalIssuePath clk status) in
      case generateConservativePath clk status of
        Inl e \<Rightarrow> Inl e
      | Inr conservativePath \<Rightarrow>
          (let paths2 = pushPath paths1 conservativePath in
           case generateAggressivePath clk status of
             Inl e \<Rightarrow> Inl e
           | Inr aggressivePath \<Rightarrow>
               (let paths3 = pushPath paths2 aggressivePath in
                case generateBalancedPath clk status of
                  Inl e \<Rightarrow> Inl e
                | Inr balancedPath \<Rightarrow> Inr (pushPath paths3 balancedPath))))"

definition immediateWindow :: "Clock \<Rightarrow> UpgradePath \<Rightarrow> MaintenanceWindow" where
  "immediateWindow clk criticalPath =
     \<lparr>id_win = ''immediate-window'',
      recommendedDate = dateNow clk + 7 * 24 * 60 * 60 * 1000,
      priority = High,
      reason = ''Critical issues detected that may block cluster operations'',
      affectedComponents = extractAffectedComponents criticalPath,
      estimatedDuration_win = estimatedDuration_path criticalPath,
      upgradePath = criticalPath\<rparr>"

definition regularWindow :: "Clock \<Rightarrow> PlatformStatus \<Rightarrow> UpgradePath \<Rightarrow> MaintenanceWindow" where
  "regularWindow clk status balancedPath =
     \<lparr>id_win = ''regular-maintenance'',
      recommendedDate = dateNow clk + 30 * 24 * 60 * 60 * 1000,
      priority = (if criticalIssues status > 0 then High else Medium),
      reason = ''Regular maintenance to keep platform current and supported'',
      affectedComponents = extractAffectedComponents balancedPath,
      estimatedDuration_win = estimatedDuration_path balancedPath,
      upgradePath = balancedPath\<rparr>"

definition lifecycleWindow :: "Clock \<Rightarrow> int \<Rightarrow> UpgradePath \<Rightarrow> MaintenanceWindow" where
  "lifecycleWindow clk days aggressivePath =
     \<lparr>id_win = ''lifecycle-maintenance'',
      recommendedDate = dateNow clk + 14 * 24 * 60 * 60 * 1000,
      priority = High,
      reason = ''Platform support expires in '' @ showInt days @ '' days'',
      affectedComponents = extractAffectedComponents aggressivePath,
      estimatedDuration_win = estimatedDuration_path aggressivePath,
      upgradePath = aggressivePath\<rparr>"

definition generateMaintenanceWindows ::
  "Clock \<Rightarrow> PlatformStatus \<Rightarrow> UpgradePath list \<Rightarrow> MaintenanceWindow list" where
  \<comment> \<open>an optional number used as a condition is false when it is \<open>undefined\<close> or \<open>0\<close>\<close>
  "generateMaintenanceWindows clk status paths =
     (let windows1 =
            (if criticalIssues status > 0 then
               (case find (\<lambda>p. id_path p = ''critical-issues-path'') paths of
                  None \<Rightarrow> []
                | Some criticalPath \<Rightarrow> [immediateWindow clk criticalPath])
             else []);
          windows2 =
            (case find (\<lambda>p. id_path p = ''balanced-path'') paths of
               None \<Rightarrow> windows1
             | Some balancedPath \<Rightarrow> windows1 @ [regularWindow clk status balancedPath])
      in case supportExpiresIn status of
           None \<Rightarrow> windows2
         | Some days \<Rightarrow>
             if days \<noteq> 0 \<and> days < 90 then
               (case find (\<lambda>p. id_path p = ''aggressive-path'') paths of
                  None \<Rightarrow> windows2
                | Some aggressivePath \<Rightarrow> windows2 @ [lifecycleWindow clk days aggressivePath])
             else windows2)"

definition getUpgradeRecommendations ::
  "Clock \<Rightarrow> error + PlatformStatus \<Rightarrow> error + UpgradePlannerRecommendations" where
  \<comment> \<open>the second argument is what \<open>lifecycleService.getPlatformStatus()\<close> resolves or
      rejects with; whatever is thrown inside the \<open>try\<close> is replaced by one error\<close>
  "getUpgradeRecommendations clk fetched =
     (case fetched of
        Inl e \<Rightarrow> Inl (Error ''Failed to generate upgrade recommendations'')
      | Inr status \<Rightarrow>
          (case generateUpgradePaths clk status of
             Inl e \<Rightarrow> Inl (Error ''Failed to generate upgrade recommendations'')
           | Inr paths \<Rightarrow>
               Inr \<lparr>platformStatus = status,
                    recommendedPaths = paths,
                    maintenanceWindows = generateMaintenanceWindows clk status paths,
                    generatedAt = dateNow clk\<rparr>))"

section \<open>The lifecycle service\<close>

text \<open>
  The service fetches from the cluster and from the lifecycle provider. What a fetch
  resolves or rejects with is an argument of the model: \<open>lifecycleOf name version\<close> is
  \<open>getOperatorLifecycleInfo\<close> (which never rejects), and the raw \<open>availableUpdates\<close> of the
  cluster version object are strings or objects with an optional \<open>version\<close>.
\<close>

datatype ClusterUpdate = UpdateString string | UpdateObject "string option"

definition extractVersionFromUpdate :: "ClusterUpdate \<Rightarrow> string" where
  \<comment> \<open>\<open>typeof update === 'string' ? update : update.version || ''\<close>\<close>
  "extractVersionFromUpdate update =
     (case update of
        UpdateString s \<Rightarrow> s
      | UpdateObject None \<Rightarrow> []
      | UpdateObject (Some v) \<Rightarrow> v)"

fun detectAvailableUpgrades ::
  "Clock \<Rightarrow> (string \<Rightarrow> string \<Rightarrow> OperatorLifecycleInfo) \<Rightarrow> OperatorInstallation \<Rightarrow>
   OperatorChannel list \<Rightarrow> error + AvailableUpgrade list" where
  \<comment> \<open>the loop over the channels; the result lists the pushed upgrades in order\<close>
  "detectAvailableUpgrades clk lifecycleOf inst [] = Inr []"
| "detectAvailableUpgrades clk lifecycleOf inst (chan # rest) =
     (let currentVersionClean = cleanVersion (currentVersion_inst inst);
          latestVersion = cleanVersion (currentCSV chan)
      in if semver_valid currentVersionClean \<and> semver_valid latestVersion then
           (case semver_gt latestVersion currentVersionClean of
              Inl e \<Rightarrow> Inl e
            | Inr newer \<Rightarrow>
                (case detectAvailableUpgrades clk lifecycleOf inst rest of
                   Inl e \<Rightarrow> Inl e
                 | Inr upgrades \<Rightarrow>
                     if newer then
                       Inr (\<lparr>operatorName_upg = name_inst inst,
                             currentVersion_upg = currentVersion_inst inst,
                             targetVersion = currentCSV chan,
                             channel_upg = name_chan chan,
                             requiresIntermediateUpgrades = False,
                             intermediateVersions = None,
                             releaseDate = dateNow clk,
                             lifecycleInfo_upg = lifecycleOf (name_inst inst) latestVersion\<rparr> # upgrades)
                     else Inr upgrades))
         else detectAvailableUpgrades clk lifecycleOf inst rest)"

definition staleChannelIssue :: "Clock \<Rightarrow> OperatorInstallation \<Rightarrow> OperatorChannel \<Rightarrow> UpgradeIssue" where
  "staleChannelIssue clk inst chan =
     \<lparr>id_issue = name_inst inst @ ''-stale-channel'',
      operatorName_issue = name_inst inst,
      severity = WARNING,
      type_issue = STALE_CHANNEL,
      title = ''Channel is deprecated'',
      description_issue =
        (case deprecationMessage chan of
           None \<Rightarrow> ''The current subscription channel has been deprecated.''
         | Some m \<Rightarrow> if m = [] then ''The current subscription channel has been deprecated.'' else m),
      recommendation = ''Switch to a supported channel: '' @ name_chan chan,
      affectsClusterUpgrade = False,
      detectedAt = dateNow clk\<rparr>"

definition maintenanceIssue :: "Clock \<Rightarrow> OperatorInstallation \<Rightarrow> UpgradeIssue" where
  "maintenanceIssue clk inst =
     \<lparr>id_issue = name_inst inst @ ''-maintenance'',
      operatorName_issue = name_inst inst,
      severity = WARNING,
      type_issue = LIFECYCLE_EXPIRING,
      title = ''Operator in maintenance support'',
      description_issue = ''This operator version is in maintenance support phase.'',
      recommendation = ''Plan an upgrade to a version in full support.'',
      affectsClusterUpgrade = False,
      detectedAt = dateNow clk\<rparr>"

definition eolIssue :: "Clock \<Rightarrow> OperatorInstallation \<Rightarrow> UpgradeIssue" where
  "eolIssue clk inst =
     \<lparr>id_issue = name_inst inst @ ''-eol'',
      operatorName_issue = name_inst inst,
      severity = CRITICAL,
      type_issue = LIFECYCLE_EXPIRING,
      title = ''Operator end of life'',
      description_issue = ''This operator version has reached end of life.'',
      recommendation = ''Upgrade immediately to a supported version.'',
      affectsClusterUpgrade = True,
      detectedAt = dateNow clk\<rparr>"

definition versionCeilingIssue :: "Clock \<Rightarrow> OperatorInstallation \<Rightarrow> string \<Rightarrow> string \<Rightarrow> UpgradeIssue" where
  "versionCeilingIssue clk inst nextVersion bound =
     \<lparr>id_issue = name_inst inst @ ''-version-ceiling'',
      operatorName_issue = name_inst inst,
      severity = CRITICAL,
      type_issue = VERSION_CEILING,
      title = ''Operator blocks cluster upgrade'',
      description_issue =
        ''This operator version does not support OCP '' @ nextVersion @ ''. Max supported: '' @ bound,
      recommendation =
        ''Upgrade operator to a version compatible with OCP '' @ nextVersion
          @ '' before upgrading the cluster.'',
      affectsClusterUpgrade = True,
      detectedAt = dateNow clk\<rparr>"

definition versionCeilingCheck ::
  "Clock \<Rightarrow> OperatorInstallation \<Rightarrow> OperatorLifecycleInfo \<Rightarrow> ClusterUpdate list \<Rightarrow>
   error + UpgradeIssue list" where
  \<comment> \<open>the last check of \<open>detectUpgradeIssues\<close> and what it pushes; an optional string used
      as a condition is false when it is \<open>undefined\<close> or empty\<close>
  "versionCeilingCheck clk inst life updates =
     (case maxOCPVersion life of
        None \<Rightarrow> Inr []
      | Some bound \<Rightarrow>
          if bound \<noteq> [] \<and> length updates > 0 then
            (let nextVersion = extractVersionFromUpdate (updates ! 0) in
             if semver_valid nextVersion \<and> semver_valid bound then
               (case semver_gt nextVersion bound of
                  Inl e \<Rightarrow> Inl e
                | Inr blocked \<Rightarrow>
                    Inr (if blocked then [versionCeilingIssue clk inst nextVersion bound] else []))
             else Inr [])
          else Inr [])"

definition detectUpgradeIssues ::
  "Clock \<Rightarrow> OperatorInstallation \<Rightarrow> OperatorLifecycleInfo \<Rightarrow> OperatorChannel \<Rightarrow>
   error + ClusterUpdate list \<Rightarrow> error + UpgradeIssue list" where
  \<comment> \<open>the last argument is what \<open>olmClient.getClusterVersion()\<close> resolves or rejects with,
      read as \<open>clusterVersion.status?.availableUpdates || []\<close>\<close>
  "detectUpgradeIssues clk inst life chan fetched =
     (let issues1 = (if deprecated chan then [staleChannelIssue clk inst chan] else []);
          issues2 = issues1 @ (if supportPhase life = MAINTENANCE_SUPPORT then [maintenanceIssue clk inst] else []);
          issues3 = issues2 @ (if supportPhase life = END_OF_LIFE then [eolIssue clk inst] else [])
      in case fetched of
           Inl e \<Rightarrow> Inl e
         | Inr updates \<Rightarrow>
             (case versionCeilingCheck clk inst life updates of
                Inl e \<Rightarrow> Inl e
              | Inr ceiling \<Rightarrow> Inr (issues3 @ ceiling)))"

definition calculateHealthStatus :: "UpgradeIssue list \<Rightarrow> Health" where
  "calculateHealthStatus iss =
     (if list_ex (\<lambda>i. severity i = CRITICAL) iss then Critical
      else if list_ex (\<lambda>i. severity i = WARNING) iss then Warning
      else Healthy)"

definition getOperatorStatus ::
  "Clock \<Rightarrow> (string \<Rightarrow> string \<Rightarrow> OperatorLifecycleInfo) \<Rightarrow> error + OperatorInstallation option \<Rightarrow>
   error + OperatorChannel list \<Rightarrow> error + ClusterUpdate list \<Rightarrow> OperatorStatus option" where
  \<comment> \<open>the arguments after the clock: the lifecycle provider, and what the fetches of the
      subscription, of the channels and of the cluster version resolve or reject with;
      an error inside the \<open>try\<close> is logged and the result is \<open>null\<close>\<close>
  "getOperatorStatus clk lifecycleOf fetchedSubscription fetchedChannels fetchedClusterVersion =
     (case fetchedSubscription of
        Inl e \<Rightarrow> None
      | Inr None \<Rightarrow> None
      | Inr (Some inst) \<Rightarrow>
          (let life = lifecycleOf (name_inst inst) (currentVersion_inst inst) in
           case fetchedChannels of
             Inl e \<Rightarrow> None
           | Inr chans \<Rightarrow>
               (let chan =
                      (case find (\<lambda>c. name_chan c = currentChannel_inst inst) chans of
                         Some c \<Rightarrow> c
                       | None \<Rightarrow>
                           \<lparr>name_chan = currentChannel_inst inst, currentCSV = currentVersion_inst inst,
                            availableVersions = [], deprecated = False,
                            deprecationMessage = None, availableInOCPVersion = None\<rparr>)
                in case detectAvailableUpgrades clk lifecycleOf inst chans of
                     Inl e \<Rightarrow> None
                   | Inr upgrades \<Rightarrow>
                       (case detectUpgradeIssues clk inst life chan fetchedClusterVersion of
                          Inl e \<Rightarrow> None
                        | Inr iss \<Rightarrow>
                            Some \<lparr>installation = inst,
                                  lifecycleInfo_status = life,
                                  availableUpgrades = upgrades,
                                  currentChannel_status = chan,
                                  availableChannels = chans,
                                  issues = iss,
                                  healthStatus = calculateHealthStatus iss\<rparr>))))"

section \<open>Example snapshots\<close>

text \<open>
  Concrete inputs for the theorems below: a clock, and platform snapshots with one or
  two operators.
\<close>

definition sampleClock :: Clock where
  "sampleClock = \<lparr>dateNow = 1700000000000, addMonths = (\<lambda>d n. d + n * 2629800000)\<rparr>"

definition sampleInstallation :: "string \<Rightarrow> string \<Rightarrow> OperatorInstallation" where
  "sampleInstallation n v =
     \<lparr>name_inst = n, displayName = n, namespace = ''openshift-operators'',
      currentVersion_inst = v, currentChannel_inst = ''stable'',
      catalogSource = ''redhat-operators'', catalogNamespace = ''openshift-marketplace'',
      installedAt = 0, updatedAt = 0, approved = True\<rparr>"

definition sampleLifecycle :: "SupportPhase \<Rightarrow> string option \<Rightarrow> string \<Rightarrow> string \<Rightarrow> OperatorLifecycleInfo" where
  "sampleLifecycle phase bound n v =
     \<lparr>operatorName_life = n, version = v, lifecycleModel = PLATFORM_AGNOSTIC,
      supportPhase = phase, fullSupportEndsAt_life = None, maintenanceSupportEndsAt_life = None,
      eolAt_life = None, minOCPVersion = None, maxOCPVersion = bound,
      recommendedForOCPVersion = None\<rparr>"

definition sampleChannel :: "string \<Rightarrow> string \<Rightarrow> bool \<Rightarrow> OperatorChannel" where
  "sampleChannel n csv dep =
     \<lparr>name_chan = n, currentCSV = csv, availableVersions = [], deprecated = dep,
      deprecationMessage = None, availableInOCPVersion = None\<rparr>"

definition sampleUpgrade :: "string \<Rightarrow> string \<Rightarrow> string \<Rightarrow> string \<Rightarrow> AvailableUpgrade" where
  "sampleUpgrade n v t c =
     \<lparr>operatorName_upg = n, currentVersion_upg = v, targetVersion = t, channel_upg = c,
      requiresIntermediateUpgrades = False, intermediateVersions = None, releaseDate = 0,
      lifecycleInfo_upg = sampleLifecycle FULL_SUPPORT None n t\<rparr>"

definition sampleOperator ::
  "string \<Rightarrow> string \<Rightarrow> (string \<times> string) list \<Rightarrow> UpgradeIssue list \<Rightarrow> OperatorStatus" where
  \<comment> \<open>an operator by name and installed version, with its upgrades (target version and
      channel) and its issues\<close>
  "sampleOperator n v ups iss =
     \<lparr>installation = sampleInstallation n v,
      lifecycleInfo_status = sampleLifecycle FULL_SUPPORT None n v,
      availableUpgrades = map (\<lambda>(t, c). sampleUpgrade n v t c) ups,
      currentChannel_status = sampleChannel ''stable'' v False,
      availableChannels = [],
      issues = iss,
      healthStatus = calculateHealthStatus iss\<rparr>"

definition samplePlatform :: "string list \<Rightarrow> OperatorStatus list \<Rightarrow> int option \<Rightarrow> PlatformStatus" where
  "samplePlatform updates ops expires =
     \<lparr>cluster =
        \<lparr>currentVersion_cluster = ''4.16.0'', desiredVersion = ''4.16.0'',
         channel_cluster = ''stable-4.16'', availableUpdates = updates, isEUS = False,
         fullSupportEndsAt_cluster = None, maintenanceSupportEndsAt_cluster = None,
         eolAt_cluster = None\<rparr>,
      operators = ops,
      overallHealth = Healthy,
      totalIssues = int (length (concat (map issues ops))),
      criticalIssues = int (length (filter (\<lambda>i. severity i = CRITICAL) (concat (map issues ops)))),
      nextMaintenanceWindow = None,
      supportExpiresIn = expires\<rparr>"

definition operatorY :: OperatorStatus where
  \<comment> \<open>an operator with a critical version-ceiling issue and one upgrade, to \<open>2.0.0\<close>\<close>
  "operatorY =
     sampleOperator ''operator-y'' ''1.4.2'' [(''2.0.0'', ''stable'')]
       [versionCeilingIssue sampleClock (sampleInstallation ''operator-y'' ''1.4.2'') ''4.16.1'' ''4.16.0'']"

definition operatorZ :: OperatorStatus where
  \<comment> \<open>an operator on a deprecated channel, with no upgrade\<close>
  "operatorZ =
     \<lparr>installation = sampleInstallation ''operator-z'' ''3.1.0'',
      lifecycleInfo_status = sampleLifecycle FULL_SUPPORT None ''operator-z'' ''3.1.0'',
      availableUpgrades = [],
      currentChannel_status = sampleChannel ''stable'' ''3.1.0'' True,
      availableChannels = [sampleChannel ''stable'' ''3.1.0'' True],
      issues = [staleChannelIssue sampleClock (sampleInstallation ''operator-z'' ''3.1.0'')
                  (sampleChannel ''stable'' ''3.1.0'' True)],
      healthStatus = Warning\<rparr>"

definition operatorE :: OperatorStatus where
  \<comment> \<open>an operator at end of life, with no upgrade\<close>
  "operatorE =
     sampleOperator ''operator-e'' ''0.9.0'' []
       [eolIssue sampleClock (sampleInstallation ''operator-e'' ''0.9.0'')]"

definition operatorM :: OperatorStatus where
  \<comment> \<open>an operator in maintenance support at \<open>1.0.0\<close>, whose only upgrade is to \<open>2.0.0\<close>\<close>
  "operatorM =
     sampleOperator ''operator-m'' ''1.0.0'' [(''2.0.0'', ''stable'')]
       [maintenanceIssue sampleClock (sampleInstallation ''operator-m'' ''1.0.0'')]"

definition sampleDetected :: "string \<Rightarrow> string \<Rightarrow> string \<Rightarrow> string \<Rightarrow> string \<Rightarrow> AvailableUpgrade" where
  \<comment> \<open>the upgrade that \<open>detectAvailableUpgrades\<close> pushes at \<open>sampleClock\<close> for an operator
      by name and installed version, a channel by version and name, and the cleaned
      channel version\<close>
  "sampleDetected n v csv c cleaned =
     \<lparr>operatorName_upg = n, currentVersion_upg = v, targetVersion = csv, channel_upg = c,
      requiresIntermediateUpgrades = False, intermediateVersions = None,
      releaseDate = dateNow sampleClock,
      lifecycleInfo_upg = sampleLifecycle FULL_SUPPORT None n cleaned\<rparr>"

definition channelsG :: "OperatorChannel list" where
  \<comment> \<open>three channels, the second with a version that holds no dotted triple\<close>
  "channelsG =
     [sampleChannel ''stable'' ''operator-g.v1.2.5'' False,
      sampleChannel ''candidate'' ''latest'' False,
      sampleChannel ''fast'' ''operator-g.v1.3.0'' False]"

definition operatorG :: OperatorStatus where
  \<comment> \<open>what \<open>getOperatorStatus\<close> builds for an operator installed at \<open>operator-g.v1.2.0\<close>
      with the channels \<open>channelsG\<close>: two upgrades, no issue\<close>
  "operatorG =
     \<lparr>installation = sampleInstallation ''operator-g'' ''operator-g.v1.2.0'',
      lifecycleInfo_status = sampleLifecycle FULL_SUPPORT None ''operator-g'' ''operator-g.v1.2.0'',
      availableUpgrades =
        [sampleDetected ''operator-g'' ''operator-g.v1.2.0'' ''operator-g.v1.2.5'' ''stable'' ''1.2.5'',
         sampleDetected ''operator-g'' ''operator-g.v1.2.0'' ''operator-g.v1.3.0'' ''fast'' ''1.3.0''],
      currentChannel_status = sampleChannel ''stable'' ''operator-g.v1.2.5'' False,
      availableChannels = channelsG,
      issues = [],
      healthStatus = Healthy\<rparr>"

definition operatorN :: OperatorStatus where
  \<comment> \<open>what \<open>getOperatorStatus\<close> builds for an operator whose installed version \<open>unknown\<close>
      holds no dotted triple, on a deprecated channel: no upgrade, one issue\<close>
  "operatorN =
     \<lparr>installation = sampleInstallation ''operator-n'' ''unknown'',
      lifecycleInfo_status = sampleLifecycle FULL_SUPPORT None ''operator-n'' ''unknown'',
      availableUpgrades = [],
      currentChannel_status = sampleChannel ''stable'' ''operator-n.v2.0.0'' True,
      availableChannels = [sampleChannel ''stable'' ''operator-n.v2.0.0'' True],
      issues = [staleChannelIssue sampleClock (sampleInstallation ''operator-n'' ''unknown'')
                  (sampleChannel ''stable'' ''operator-n.v2.0.0'' True)],
      healthStatus = Warning\<rparr>"

definition scenarioB :: PlatformStatus where
  "scenarioB = samplePlatform [''4.16.1'', ''4.16.5''] [operatorY] None"

definition scenarioC :: PlatformStatus where
  "scenarioC = samplePlatform [''4.16.1'', ''4.16.5''] [operatorZ, operatorY] None"

definition scenarioE :: PlatformStatus where
  "scenarioE = samplePlatform [] [operatorE] None"

definition scenarioM :: PlatformStatus where
  "scenarioM = samplePlatform [] [operatorM] None"

definition scenarioG :: PlatformStatus where
  "scenarioG = samplePlatform [''4.16.1''] [operatorG, operatorN] None"

definition scenarioD0 :: PlatformStatus where
  "scenarioD0 = samplePlatform [''4.16.1'', ''4.16.5''] [operatorY] (Some 0)"

section \<open>Reading a path\<close>



definition upgradesOperator :: "OperatorStatus \<Rightarrow> UpgradeStep \<Rightarrow> bool" where
  \<comment> \<open>the step is an operator step for this operator: it carries the operator's name and
      installed version, and the target version and channel of one of the operator's
      available upgrades\<close>
  "upgradesOperator operator s =
     (type_step s = Operator
      \<and> target s = name_inst (installation operator)
      \<and> fromVersion s = Some (currentVersion_inst (installation operator))
      \<and> list_ex (\<lambda>u. toVersion s = Some (targetVersion u) \<and> channel_step s = Some (channel_upg u))
           (availableUpgrades operator))"

section \<open>Evaluating the model on concrete inputs\<close>

lemmas text_eval =
  isDigit_def isSpace_def isLetterDashNumber_def digitVal_def parseNat_def digitChar_def
  showNat.simps showInt_def trim_def

lemmas semver_eval =
  cleanVersion_def matchVTriple_def matchTriple_def
  MAX_LENGTH_def MAX_SAFE_INTEGER_def numericIdentifier_def prereleaseIdentifier_def
  buildIdentifier_def toIdentifier_def matchTail_def matchFull_def newSemVer_def
  semver_parse_def semver_valid_def compareNat_def compareMain_def comparePre_def
  compareSemVer_def semver_compare_def semver_gt_def semver_lt_def diffSemVer_def semver_diff_def
  toDouble_def bitLength.simps

lemmas duration_eval =
  matchDuration_def stepMinutes_def totalMinutes_def calculateTotalDuration_def
  calculateSupportedUntil_def extractAffectedComponents_def

lemmas step_eval =
  criticalVerificationStep_def criticalOperatorStep_def criticalClusterStep_def
  verificationStep_def conservativeOperatorStep_def aggressiveOperatorStep_def
  aggressiveClusterStep_def balancedOperatorStep_def balancedClusterStep_def

lemmas planner_eval =
  findConservativeUpgrade_def findBalancedUpgrade_def isSignificantlyOutdated_def
  shouldUpgrade_def generateCriticalIssuePath_def generateConservativePath_def
  generateAggressivePath_def generateBalancedPath_def pushPath_def generateUpgradePaths_def
  immediateWindow_def regularWindow_def lifecycleWindow_def generateMaintenanceWindows_def
  getUpgradeRecommendations_def

lemmas lifecycle_eval =
  extractVersionFromUpdate_def staleChannelIssue_def maintenanceIssue_def eolIssue_def
  versionCeilingIssue_def versionCeilingCheck_def detectUpgradeIssues_def
  calculateHealthStatus_def getOperatorStatus_def

lemmas sample_eval =
  sampleClock_def sampleInstallation_def sampleLifecycle_def sampleChannel_def
  sampleUpgrade_def sampleOperator_def samplePlatform_def operatorY_def operatorZ_def
  operatorE_def operatorM_def sampleDetected_def channelsG_def operatorG_def operatorN_def
  scenarioB_def scenarioC_def
  scenarioE_def scenarioM_def scenarioG_def scenarioD0_def

section \<open>Health status\<close>

lemma getOperatorStatus_health:
  "getOperatorStatus clk lifecycleOf sub chans cv = Some st \<Longrightarrow>
   healthStatus st = calculateHealthStatus (issues st)"
  by (auto simp: getOperatorStatus_def Let_def split: sum.splits option.splits)

text \<open>
  Claim C10. The health status the lifecycle service computes for an operator is
  \<open>critical\<close> exactly when the operator has an issue of critical severity; otherwise it is
  \<open>warning\<close> exactly when it has an issue of warning severity; otherwise it is \<open>healthy\<close>.
  Every operator status that \<open>getOperatorStatus\<close> returns carries the status computed
  from its own issue list.
\<close>

theorem health_status_by_severity:
  "(calculateHealthStatus iss = Critical) = (\<exists>i \<in> set iss. severity i = CRITICAL)
   \<and> (calculateHealthStatus iss = Warning) =
       ((\<not> (\<exists>i \<in> set iss. severity i = CRITICAL)) \<and> (\<exists>i \<in> set iss. severity i = WARNING))
   \<and> (calculateHealthStatus iss = Healthy) =
       ((\<not> (\<exists>i \<in> set iss. severity i = CRITICAL)) \<and> \<not> (\<exists>i \<in> set iss. severity i = WARNING))
   \<and> (getOperatorStatus clk lifecycleOf sub chans cv = Some st \<longrightarrow>
        healthStatus st = calculateHealthStatus (issues st))"
  using getOperatorStatus_health [of clk lifecycleOf sub chans cv st]
  by (auto simp: calculateHealthStatus_def list_ex_iff)

theorem health_status_by_severity_witness:
  "getOperatorStatus sampleClock (sampleLifecycle FULL_SUPPORT None)
     (Inr (Some (sampleInstallation ''operator-z'' ''3.1.0'')))
     (Inr [sampleChannel ''stable'' ''3.1.0'' True]) (Inr [UpdateString ''4.16.1'']) = Some operatorZ
   \<and> healthStatus operatorZ = calculateHealthStatus (issues operatorZ)
   \<and> healthStatus operatorZ = Warning"
proof -
  have run: "getOperatorStatus sampleClock (sampleLifecycle FULL_SUPPORT None)
     (Inr (Some (sampleInstallation ''operator-z'' ''3.1.0'')))
     (Inr [sampleChannel ''stable'' ''3.1.0'' True]) (Inr [UpdateString ''4.16.1'']) = Some operatorZ"
    by (simp add: lifecycle_eval sample_eval semver_eval text_eval Let_def)
  have warn: "healthStatus operatorZ = Warning"
    by (simp add: operatorZ_def)
  from health_status_by_severity [of "issues operatorZ" sampleClock "sampleLifecycle FULL_SUPPORT None"
      "Inr (Some (sampleInstallation ''operator-z'' ''3.1.0''))"
      "Inr [sampleChannel ''stable'' ''3.1.0'' True]" "Inr [UpdateString ''4.16.1'']" operatorZ] run
  have "healthStatus operatorZ = calculateHealthStatus (issues operatorZ)" by simp
  with run warn show ?thesis by simp
qed

section \<open>Total duration\<close>











lemma totalMinutes_sum: "foldl (\<lambda>total step. total + stepMinutes step) a stps = a + sum_list (map stepMinutes stps)"
  by (induction stps arbitrary: a) simp_all












section \<open>Where the generators depart from their contract\<close>

text \<open>
  Claim C1 (fails for the critical-issues strategy). A strategy that adds no step after
  the verification step should return no path. With one operator at end of life that
  has no upgrade, and no platform update, \<open>generateCriticalIssuePath\<close> returns a path
  whose only step is the verification step: unlike the other three generators it never
  tests \<open>steps.length === 1\<close>.
\<close>

theorem critical_path_verification_only:
  "map_option steps (generateCriticalIssuePath sampleClock scenarioE) = Some [criticalVerificationStep 1]
   \<and> map_option (map type_step \<circ> steps) (generateCriticalIssuePath sampleClock scenarioE)
       = Some [Verification]"
  by (simp add: planner_eval step_eval sample_eval lifecycle_eval Let_def)

text \<open>
  Claim C2 (fails). The conservative path should never pick an upgrade of major
  magnitude. The \<open>reduce\<close> of \<open>findConservativeUpgrade\<close> starts from the first listed
  upgrade and only ever replaces it by a patch or minor candidate, so an operator at
  \<open>1.0.0\<close> whose only upgrade is \<open>2.0.0\<close> gets a step to \<open>2.0.0\<close>, a major jump.
\<close>

theorem conservative_path_major_upgrade:
  "map_sum id (map_option (map toVersion \<circ> steps)) (generateConservativePath sampleClock scenarioM)
     = Inr (Some [None, Some ''2.0.0''])
   \<and> semver_diff (cleanVersion ''1.0.0'') (cleanVersion ''2.0.0'') = Inr (Some ''major'')"
  by (simp add: planner_eval step_eval sample_eval lifecycle_eval semver_eval text_eval Let_def)

text \<open>
  Claim C6 (fails at 0). With support expiring in fewer than 90 days and an aggressive
  path at hand, the scheduler should emit the lifecycle window. The test
  \<open>platformStatus.supportExpiresIn && ...\<close> is false for the number 0, so with 0 days
  left the window is missing although the aggressive path exists.
\<close>

theorem no_lifecycle_window_at_zero:
  "supportExpiresIn scenarioD0 = Some 0
   \<and> map_sum id (map id_path) (generateUpgradePaths sampleClock scenarioD0)
       = Inr [''critical-issues-path'', ''aggressive-path'', ''balanced-path'']
   \<and> map_sum id (map id_win \<circ> generateMaintenanceWindows sampleClock scenarioD0)
         (generateUpgradePaths sampleClock scenarioD0)
       = Inr [''immediate-window'', ''regular-maintenance'']
   \<and> filter (\<lambda>w. id_win w = ''lifecycle-maintenance'')
         (generateMaintenanceWindows clk (status\<lparr>supportExpiresIn := Some 0\<rparr>) paths) = []"
proof -
  have "filter (\<lambda>w. id_win w = ''lifecycle-maintenance'')
         (generateMaintenanceWindows clk (status\<lparr>supportExpiresIn := Some 0\<rparr>) paths) = []"
    by (simp add: generateMaintenanceWindows_def immediateWindow_def regularWindow_def Let_def
        split: option.splits)
  moreover have "supportExpiresIn scenarioD0 = Some 0"
    by (simp add: sample_eval)
  moreover have "map_sum id (map id_path) (generateUpgradePaths sampleClock scenarioD0)
       = Inr [''critical-issues-path'', ''aggressive-path'', ''balanced-path'']"
    by (simp add: planner_eval step_eval sample_eval lifecycle_eval semver_eval text_eval Let_def)
  moreover have "map_sum id (map id_win \<circ> generateMaintenanceWindows sampleClock scenarioD0)
         (generateUpgradePaths sampleClock scenarioD0)
       = Inr [''immediate-window'', ''regular-maintenance'']"
    by (simp add: planner_eval step_eval sample_eval lifecycle_eval semver_eval text_eval Let_def)
  ultimately show ?thesis by simp
qed

section \<open>The steps of a generated path\<close>

lemma upgradesOperator_nonempty: "upgradesOperator operator s \<Longrightarrow> availableUpgrades operator \<noteq> []"
  by (auto simp: upgradesOperator_def)

lemma reduceClosest_member:
  "reduceClosest cv closest rest = Inr u \<Longrightarrow> u = closest \<or> u \<in> set rest"
proof (induction rest arbitrary: closest)
  case Nil
  then show ?case by simp
next
  case (Cons current rest)
  then show ?case
    by (fastforce simp: Let_def split: sum.splits if_splits)
qed

lemma findConservativeUpgrade_member:
  "findConservativeUpgrade operator = Inr (Some u) \<Longrightarrow> u \<in> set (availableUpgrades operator)"
  by (auto simp: findConservativeUpgrade_def Let_def split: list.splits if_splits sum.splits
      dest: reduceClosest_member)

lemma reduceLatest_member:
  "reduceLatest latest rest = Inr u \<Longrightarrow> u = latest \<or> u \<in> set rest"
proof (induction rest arbitrary: latest)
  case Nil
  then show ?case by simp
next
  case (Cons current rest)
  then show ?case
    by (fastforce split: sum.splits if_splits)
qed

lemma findBalancedUpgrade_member:
  "findBalancedUpgrade operator = Some u \<Longrightarrow> u \<in> set (availableUpgrades operator)"
proof -
  assume found: "findBalancedUpgrade operator = Some u"
  let ?stable = "filter (\<lambda>u. includes_str (channel_upg u) ''stable'' \<or> includes_str (channel_upg u) ''recommended'')
                    (availableUpgrades operator)"
  show ?thesis
  proof (cases "?stable = []")
    case True
    with found have "availableUpgrades operator \<noteq> []"
      and "u = availableUpgrades operator ! (length (availableUpgrades operator) div 2)"
      by (auto simp: findBalancedUpgrade_def Let_def split: if_splits)
    then show ?thesis by simp
  next
    case False
    with found have u: "u = last ?stable"
      by (auto simp: findBalancedUpgrade_def Let_def split: if_splits)
    from False have "last ?stable \<in> set ?stable" by (rule last_in_set)
    then have "last ?stable \<in> set (availableUpgrades operator)" by simp
    with u show ?thesis by simp
  qed
qed

lemma step_of_upgrade:
  "u \<in> set (availableUpgrades operator) \<Longrightarrow>
   upgradesOperator operator (criticalOperatorStep n operator u)
   \<and> upgradesOperator operator (conservativeOperatorStep n operator u)
   \<and> upgradesOperator operator (aggressiveOperatorStep n operator u)
   \<and> upgradesOperator operator (balancedOperatorStep n operator u)"
  by (auto simp: upgradesOperator_def list_ex_iff criticalOperatorStep_def
      conservativeOperatorStep_def aggressiveOperatorStep_def balancedOperatorStep_def)

lemma criticalOperatorSteps_new:
  "criticalOperatorSteps ops (stps, n) = (stps', n') \<Longrightarrow>
   \<exists>new. stps' = stps @ new \<and> (\<forall>s \<in> set new. \<exists>op \<in> set ops. upgradesOperator op s)"
proof (induction ops arbitrary: stps n)
  case Nil
  then show ?case by simp
next
  case (Cons operator rest)
  show ?case
  proof (cases "availableUpgrades operator")
    case Nil
    with Cons.prems have "criticalOperatorSteps rest (stps, n) = (stps', n')" by simp
    from Cons.IH [OF this] show ?thesis by auto
  next
    case (Cons upgrade others)
    with Cons.prems have "criticalOperatorSteps rest
        (stps @ [criticalOperatorStep n operator upgrade], n + 1) = (stps', n')" by simp
    from Cons.IH [OF this] obtain new where
      new: "stps' = (stps @ [criticalOperatorStep n operator upgrade]) @ new"
        "\<forall>s \<in> set new. \<exists>op \<in> set rest. upgradesOperator op s" by blast
    from Cons have "upgradesOperator operator (criticalOperatorStep n operator upgrade)"
      by (simp add: step_of_upgrade)
    with new show ?thesis
      by (intro exI [of _ "criticalOperatorStep n operator upgrade # new"]) auto
  qed
qed

lemma conservativeOperatorSteps_new:
  "conservativeOperatorSteps ops (stps, n) = Inr (stps', n') \<Longrightarrow>
   \<exists>new. stps' = stps @ new \<and> (\<forall>s \<in> set new. \<exists>op \<in> set ops. upgradesOperator op s)"
proof (induction ops arbitrary: stps n)
  case Nil
  then show ?case by simp
next
  case (Cons operator rest)
  from Cons.prems obtain found where found: "findConservativeUpgrade operator = Inr found"
    by (auto split: sum.splits)
  show ?case
  proof (cases found)
    case None
    with Cons.prems found have "conservativeOperatorSteps rest (stps, n) = Inr (stps', n')" by simp
    from Cons.IH [OF this] show ?thesis by auto
  next
    case (Some upgrade)
    with Cons.prems found have "conservativeOperatorSteps rest
        (stps @ [conservativeOperatorStep n operator upgrade], n + 1) = Inr (stps', n')" by simp
    from Cons.IH [OF this] obtain new where
      new: "stps' = (stps @ [conservativeOperatorStep n operator upgrade]) @ new"
        "\<forall>s \<in> set new. \<exists>op \<in> set rest. upgradesOperator op s" by blast
    from Some found have "upgradesOperator operator (conservativeOperatorStep n operator upgrade)"
      by (simp add: step_of_upgrade findConservativeUpgrade_member)
    with new show ?thesis
      by (intro exI [of _ "conservativeOperatorStep n operator upgrade # new"]) auto
  qed
qed

lemma aggressiveOperatorSteps_new:
  "aggressiveOperatorSteps ops (stps, n) = Inr (stps', n') \<Longrightarrow>
   \<exists>new. stps' = stps @ new \<and> (\<forall>s \<in> set new. \<exists>op \<in> set ops. upgradesOperator op s)"
proof (induction ops arbitrary: stps n)
  case Nil
  then show ?case by simp
next
  case (Cons operator rest)
  show ?case
  proof (cases "availableUpgrades operator")
    case Nil
    with Cons.prems have "aggressiveOperatorSteps rest (stps, n) = Inr (stps', n')" by simp
    from Cons.IH [OF this] show ?thesis by auto
  next
    case (Cons first others)
    with Cons.prems obtain upgrade where latest: "reduceLatest first others = Inr upgrade"
      by (auto split: sum.splits)
    with Cons Cons.prems have "aggressiveOperatorSteps rest
        (stps @ [aggressiveOperatorStep n operator upgrade], n + 1) = Inr (stps', n')" by simp
    from Cons.IH [OF this] obtain new where
      new: "stps' = (stps @ [aggressiveOperatorStep n operator upgrade]) @ new"
        "\<forall>s \<in> set new. \<exists>op \<in> set rest. upgradesOperator op s" by blast
    from reduceLatest_member [OF latest] Cons have "upgrade \<in> set (availableUpgrades operator)"
      by auto
    then have "upgradesOperator operator (aggressiveOperatorStep n operator upgrade)"
      by (simp add: step_of_upgrade)
    with new show ?thesis
      by (intro exI [of _ "aggressiveOperatorStep n operator upgrade # new"]) auto
  qed
qed

lemma balancedOperatorSteps_new:
  "balancedOperatorSteps ops (stps, n) = Inr (stps', n') \<Longrightarrow>
   \<exists>new. stps' = stps @ new \<and> (\<forall>s \<in> set new. \<exists>op \<in> set ops. upgradesOperator op s)"
proof (induction ops arbitrary: stps n)
  case Nil
  then show ?case by simp
next
  case (Cons operator rest)
  from Cons.prems obtain should where should: "shouldUpgrade operator = Inr should"
    by (auto split: sum.splits)
  show ?case
  proof (cases "should \<and> length (availableUpgrades operator) > 0 \<and> findBalancedUpgrade operator \<noteq> None")
    case False
    with Cons.prems should have "balancedOperatorSteps rest (stps, n) = Inr (stps', n')"
      by (auto split: option.splits)
    from Cons.IH [OF this] show ?thesis by auto
  next
    case True
    then obtain upgrade where upgrade: "findBalancedUpgrade operator = Some upgrade" by auto
    with True Cons.prems should have "balancedOperatorSteps rest
        (stps @ [balancedOperatorStep n operator upgrade], n + 1) = Inr (stps', n')" by simp
    from Cons.IH [OF this] obtain new where
      new: "stps' = (stps @ [balancedOperatorStep n operator upgrade]) @ new"
        "\<forall>s \<in> set new. \<exists>op \<in> set rest. upgradesOperator op s" by blast
    from upgrade have "upgradesOperator operator (balancedOperatorStep n operator upgrade)"
      by (simp add: step_of_upgrade findBalancedUpgrade_member)
    with new show ?thesis
      by (intro exI [of _ "balancedOperatorStep n operator upgrade # new"]) auto
  qed
qed

lemma critical_path_shape:
  assumes "generateCriticalIssuePath clk status = Some p"
  shows "\<exists>first new cl. steps p = first # new @ cl \<and> type_step first = Verification
           \<and> (\<forall>s \<in> set new. \<exists>op \<in> set (operators status). upgradesOperator op s)
           \<and> (\<forall>s \<in> set cl. type_step s = Cluster \<and> availableUpdates (cluster status) \<noteq> []
                 \<and> toVersion s = Some (hd (availableUpdates (cluster status))))"
proof -
  let ?crit = "filter (\<lambda>op. list_ex (\<lambda>i. severity i = CRITICAL) (issues op)) (operators status)"
  obtain stps1 n1 where loop:
    "criticalOperatorSteps ?crit ([criticalVerificationStep 1], 2) = (stps1, n1)"
    by (cases "criticalOperatorSteps ?crit ([criticalVerificationStep 1], 2)") auto
  from criticalOperatorSteps_new [OF loop] obtain new where
    new: "stps1 = [criticalVerificationStep 1] @ new"
      "\<forall>s \<in> set new. \<exists>op \<in> set ?crit. upgradesOperator op s" by blast
  let ?cl = "case availableUpdates (cluster status) of [] \<Rightarrow> []
             | nextVersion # _ \<Rightarrow> [criticalClusterStep n1 status nextVersion]"
  from assms loop new have "steps p = criticalVerificationStep 1 # new @ ?cl"
    by (auto simp: generateCriticalIssuePath_def Let_def split: if_splits list.splits)
  moreover have "type_step (criticalVerificationStep 1) = Verification"
    by (simp add: criticalVerificationStep_def)
  moreover from new have "\<forall>s \<in> set new. \<exists>op \<in> set (operators status). upgradesOperator op s"
    by fastforce
  moreover have "\<forall>s \<in> set ?cl. type_step s = Cluster \<and> availableUpdates (cluster status) \<noteq> []
                 \<and> toVersion s = Some (hd (availableUpdates (cluster status)))"
    by (cases "availableUpdates (cluster status)") (simp_all add: criticalClusterStep_def)
  ultimately show ?thesis by blast
qed

lemma conservative_path_shape:
  assumes "generateConservativePath clk status = Inr (Some p)"
  shows "\<exists>first new. steps p = first # new \<and> type_step first = Verification
           \<and> (\<forall>s \<in> set new. \<exists>op \<in> set (operators status). upgradesOperator op s)"
proof -
  let ?warn = "filter (\<lambda>op. list_ex (\<lambda>i. severity i = WARNING) (issues op)) (operators status)"
  from assms obtain stps n where loop:
    "conservativeOperatorSteps ?warn ([verificationStep 1], 2) = Inr (stps, n)"
    by (auto simp: generateConservativePath_def Let_def split: sum.splits)
  from conservativeOperatorSteps_new [OF loop] obtain new where
    new: "stps = [verificationStep 1] @ new"
      "\<forall>s \<in> set new. \<exists>op \<in> set ?warn. upgradesOperator op s" by blast
  from assms loop new have "steps p = verificationStep 1 # new"
    by (auto simp: generateConservativePath_def Let_def split: if_splits)
  moreover have "type_step (verificationStep 1) = Verification"
    by (simp add: verificationStep_def)
  moreover from new have "\<forall>s \<in> set new. \<exists>op \<in> set (operators status). upgradesOperator op s"
    by fastforce
  ultimately show ?thesis by blast
qed

lemma aggressive_path_shape:
  assumes "generateAggressivePath clk status = Inr (Some p)"
  shows "\<exists>first new cl. steps p = first # new @ cl \<and> type_step first = Verification
           \<and> (\<forall>s \<in> set new. \<exists>op \<in> set (operators status). upgradesOperator op s)
           \<and> (\<forall>s \<in> set cl. type_step s = Cluster \<and> availableUpdates (cluster status) \<noteq> []
                 \<and> toVersion s = Some (last (availableUpdates (cluster status))))"
proof -
  from assms obtain stps1 n1 where loop:
    "aggressiveOperatorSteps (operators status) ([verificationStep 1], 2) = Inr (stps1, n1)"
    by (auto simp: generateAggressivePath_def split: sum.splits)
  from aggressiveOperatorSteps_new [OF loop] obtain new where
    new: "stps1 = [verificationStep 1] @ new"
      "\<forall>s \<in> set new. \<exists>op \<in> set (operators status). upgradesOperator op s" by blast
  let ?ups = "availableUpdates (cluster status)"
  let ?cl = "if length ?ups > 0 then [aggressiveClusterStep n1 status (?ups ! (length ?ups - 1))] else []"
  from assms loop new have "steps p = verificationStep 1 # new @ ?cl"
    by (auto simp: generateAggressivePath_def Let_def split: if_splits)
  moreover have "type_step (verificationStep 1) = Verification"
    by (simp add: verificationStep_def)
  moreover have "\<forall>s \<in> set ?cl. type_step s = Cluster \<and> ?ups \<noteq> [] \<and> toVersion s = Some (last ?ups)"
    by (auto simp: aggressiveClusterStep_def last_conv_nth)
  ultimately show ?thesis using new(2) by blast
qed

lemma balanced_path_shape:
  assumes "generateBalancedPath clk status = Inr (Some p)"
  shows "\<exists>first new cl. steps p = first # new @ cl \<and> type_step first = Verification
           \<and> (\<forall>s \<in> set new. \<exists>op \<in> set (operators status). upgradesOperator op s)
           \<and> (\<forall>s \<in> set cl. type_step s = Cluster \<and> availableUpdates (cluster status) \<noteq> []
                 \<and> toVersion s = Some (hd (availableUpdates (cluster status))))"
proof -
  from assms obtain stps1 n1 where loop:
    "balancedOperatorSteps (operators status) ([verificationStep 1], 2) = Inr (stps1, n1)"
    by (auto simp: generateBalancedPath_def split: sum.splits)
  from balancedOperatorSteps_new [OF loop] obtain new where
    new: "stps1 = [verificationStep 1] @ new"
      "\<forall>s \<in> set new. \<exists>op \<in> set (operators status). upgradesOperator op s" by blast
  let ?cl = "case availableUpdates (cluster status) of [] \<Rightarrow> []
             | v # _ \<Rightarrow> [balancedClusterStep n1 status v]"
  from assms loop new have "steps p = verificationStep 1 # new @ ?cl"
    by (auto simp: generateBalancedPath_def Let_def split: if_splits list.splits)
  moreover have "type_step (verificationStep 1) = Verification"
    by (simp add: verificationStep_def)
  moreover have "\<forall>s \<in> set ?cl. type_step s = Cluster \<and> availableUpdates (cluster status) \<noteq> []
                 \<and> toVersion s = Some (hd (availableUpdates (cluster status)))"
    by (cases "availableUpdates (cluster status)") (simp_all add: balancedClusterStep_def)
  ultimately show ?thesis using new(2) by blast
qed

lemma operator_step_source:
  assumes "steps p = first # new @ cl" and "type_step first = Verification"
    and "\<forall>s \<in> set new. \<exists>op \<in> set ops. upgradesOperator op s"
    and "\<forall>s \<in> set cl. type_step s = Cluster \<and> Q s"
    and "s \<in> set (steps p)" and "type_step s = Operator"
  shows "\<exists>op \<in> set ops. availableUpgrades op \<noteq> [] \<and> upgradesOperator op s"
proof -
  from assms have "s \<in> set new" by auto
  with assms(3) obtain op where "op \<in> set ops" "upgradesOperator op s" by blast
  then show ?thesis using upgradesOperator_nonempty by blast
qed

lemma cluster_step_target:
  assumes "steps p = first # new @ cl" and "type_step first = Verification"
    and "\<forall>s \<in> set new. \<exists>op \<in> set ops. upgradesOperator op s"
    and "\<forall>s \<in> set cl. type_step s = Cluster \<and> Q s"
    and "s \<in> set (steps p)" and "type_step s = Cluster"
  shows "Q s"
proof -
  from assms(3) have "\<forall>s \<in> set new. type_step s = Operator"
    by (auto simp: upgradesOperator_def)
  with assms have "s \<in> set cl" by auto
  with assms(4) show ?thesis by simp
qed

lemma generated_operator_step:
  assumes "generateCriticalIssuePath clk status = Some p
           \<or> generateConservativePath clk status = Inr (Some p)
           \<or> generateAggressivePath clk status = Inr (Some p)
           \<or> generateBalancedPath clk status = Inr (Some p)"
    and "s \<in> set (steps p)" and "type_step s = Operator"
  shows "\<exists>op \<in> set (operators status). availableUpgrades op \<noteq> [] \<and> upgradesOperator op s"
proof -
  from assms(1) consider
    (critical) "generateCriticalIssuePath clk status = Some p"
    | (conservative) "generateConservativePath clk status = Inr (Some p)"
    | (aggressive) "generateAggressivePath clk status = Inr (Some p)"
    | (balanced) "generateBalancedPath clk status = Inr (Some p)"
    by blast
  then show ?thesis
  proof cases
    case critical
    from critical_path_shape [OF this] obtain first new cl where
      "steps p = first # new @ cl" "type_step first = Verification"
      "\<forall>s \<in> set new. \<exists>op \<in> set (operators status). upgradesOperator op s"
      "\<forall>s \<in> set cl. type_step s = Cluster \<and> (availableUpdates (cluster status) \<noteq> []
                 \<and> toVersion s = Some (hd (availableUpdates (cluster status))))"
      by blast
    from operator_step_source [OF this assms(2,3)] show ?thesis .
  next
    case conservative
    from conservative_path_shape [OF this] obtain first new where
      "steps p = first # new @ []" "type_step first = Verification"
      "\<forall>s \<in> set new. \<exists>op \<in> set (operators status). upgradesOperator op s"
      "\<forall>s \<in> set ([] :: UpgradeStep list). type_step s = Cluster \<and> True"
      by auto
    from operator_step_source [OF this assms(2,3)] show ?thesis .
  next
    case aggressive
    from aggressive_path_shape [OF this] obtain first new cl where
      "steps p = first # new @ cl" "type_step first = Verification"
      "\<forall>s \<in> set new. \<exists>op \<in> set (operators status). upgradesOperator op s"
      "\<forall>s \<in> set cl. type_step s = Cluster \<and> (availableUpdates (cluster status) \<noteq> []
                 \<and> toVersion s = Some (last (availableUpdates (cluster status))))"
      by blast
    from operator_step_source [OF this assms(2,3)] show ?thesis .
  next
    case balanced
    from balanced_path_shape [OF this] obtain first new cl where
      "steps p = first # new @ cl" "type_step first = Verification"
      "\<forall>s \<in> set new. \<exists>op \<in> set (operators status). upgradesOperator op s"
      "\<forall>s \<in> set cl. type_step s = Cluster \<and> (availableUpdates (cluster status) \<noteq> []
                 \<and> toVersion s = Some (hd (availableUpdates (cluster status))))"
      by blast
    from operator_step_source [OF this assms(2,3)] show ?thesis .
  qed
qed

text \<open>
  Claim C4. In a generated path that holds a platform-upgrade step, the step's target
  version is the last element of the snapshot's \<open>availableUpdates\<close> for the aggressive
  path, and the first element (index 0) for the critical-issues and balanced paths.
\<close>

theorem platform_step_target:
  "(generateAggressivePath clk status = Inr (Some p) \<and> s \<in> set (steps p) \<and> type_step s = Cluster \<longrightarrow>
      availableUpdates (cluster status) \<noteq> []
      \<and> toVersion s = Some (last (availableUpdates (cluster status))))
   \<and> (generateCriticalIssuePath clk status = Some p \<and> s \<in> set (steps p) \<and> type_step s = Cluster \<longrightarrow>
      availableUpdates (cluster status) \<noteq> []
      \<and> toVersion s = Some (availableUpdates (cluster status) ! 0))
   \<and> (generateBalancedPath clk status = Inr (Some p) \<and> s \<in> set (steps p) \<and> type_step s = Cluster \<longrightarrow>
      availableUpdates (cluster status) \<noteq> []
      \<and> toVersion s = Some (availableUpdates (cluster status) ! 0))"
proof (intro conjI impI)
  assume a: "generateAggressivePath clk status = Inr (Some p) \<and> s \<in> set (steps p) \<and> type_step s = Cluster"
  from aggressive_path_shape [of clk status p] a obtain first new cl where
    "steps p = first # new @ cl" "type_step first = Verification"
    "\<forall>s \<in> set new. \<exists>op \<in> set (operators status). upgradesOperator op s"
    "\<forall>s \<in> set cl. type_step s = Cluster \<and> (availableUpdates (cluster status) \<noteq> []
                 \<and> toVersion s = Some (last (availableUpdates (cluster status))))"
    by blast
  note shape = this
  from a have mem: "s \<in> set (steps p)" and ty: "type_step s = Cluster" by simp_all
  from cluster_step_target [OF shape mem ty]
  show "availableUpdates (cluster status) \<noteq> []"
    and "toVersion s = Some (last (availableUpdates (cluster status)))"
    by simp_all
next
  assume a: "generateCriticalIssuePath clk status = Some p \<and> s \<in> set (steps p) \<and> type_step s = Cluster"
  from critical_path_shape [of clk status p] a obtain first new cl where
    "steps p = first # new @ cl" "type_step first = Verification"
    "\<forall>s \<in> set new. \<exists>op \<in> set (operators status). upgradesOperator op s"
    "\<forall>s \<in> set cl. type_step s = Cluster \<and> (availableUpdates (cluster status) \<noteq> []
                 \<and> toVersion s = Some (hd (availableUpdates (cluster status))))"
    by blast
  note shape = this
  from a have mem: "s \<in> set (steps p)" and ty: "type_step s = Cluster" by simp_all
  from cluster_step_target [OF shape mem ty]
  show "availableUpdates (cluster status) \<noteq> []"
    and "toVersion s = Some (availableUpdates (cluster status) ! 0)"
    by (simp_all add: hd_conv_nth)
next
  assume a: "generateBalancedPath clk status = Inr (Some p) \<and> s \<in> set (steps p) \<and> type_step s = Cluster"
  from balanced_path_shape [of clk status p] a obtain first new cl where
    "steps p = first # new @ cl" "type_step first = Verification"
    "\<forall>s \<in> set new. \<exists>op \<in> set (operators status). upgradesOperator op s"
    "\<forall>s \<in> set cl. type_step s = Cluster \<and> (availableUpdates (cluster status) \<noteq> []
                 \<and> toVersion s = Some (hd (availableUpdates (cluster status))))"
    by blast
  note shape = this
  from a have mem: "s \<in> set (steps p)" and ty: "type_step s = Cluster" by simp_all
  from cluster_step_target [OF shape mem ty]
  show "availableUpdates (cluster status) \<noteq> []"
    and "toVersion s = Some (availableUpdates (cluster status) ! 0)"
    by (simp_all add: hd_conv_nth)
qed

theorem platform_step_target_witness:
  "(\<exists>p s. generateAggressivePath sampleClock scenarioB = Inr (Some p) \<and> s \<in> set (steps p)
       \<and> type_step s = Cluster \<and> toVersion s = Some ''4.16.5'')
   \<and> (\<exists>p s. generateCriticalIssuePath sampleClock scenarioB = Some p \<and> s \<in> set (steps p)
       \<and> type_step s = Cluster \<and> toVersion s = Some ''4.16.1'')
   \<and> (\<exists>p s. generateBalancedPath sampleClock scenarioB = Inr (Some p) \<and> s \<in> set (steps p)
       \<and> type_step s = Cluster \<and> toVersion s = Some ''4.16.1'')"
proof -
  have updates: "availableUpdates (cluster scenarioB) = [''4.16.1'', ''4.16.5'']"
    by (simp add: sample_eval)
  have "\<exists>p. generateAggressivePath sampleClock scenarioB = Inr (Some p)
          \<and> (\<exists>s \<in> set (steps p). type_step s = Cluster)"
    by (simp add: planner_eval step_eval sample_eval lifecycle_eval semver_eval text_eval Let_def)
  then have aggressive: "\<exists>p s. generateAggressivePath sampleClock scenarioB = Inr (Some p)
      \<and> s \<in> set (steps p) \<and> type_step s = Cluster \<and> toVersion s = Some ''4.16.5''"
  proof (elim exE conjE bexE)
    fix p s
    assume run: "generateAggressivePath sampleClock scenarioB = Inr (Some p)"
      and mem: "s \<in> set (steps p)" and ty: "type_step s = Cluster"
    from platform_step_target [of sampleClock scenarioB p s] run mem ty updates
    have "toVersion s = Some ''4.16.5''" by simp
    with run mem ty show ?thesis by blast
  qed
  have "\<exists>p. generateCriticalIssuePath sampleClock scenarioB = Some p
          \<and> (\<exists>s \<in> set (steps p). type_step s = Cluster)"
    by (simp add: planner_eval step_eval sample_eval lifecycle_eval Let_def)
  then have critical: "\<exists>p s. generateCriticalIssuePath sampleClock scenarioB = Some p
      \<and> s \<in> set (steps p) \<and> type_step s = Cluster \<and> toVersion s = Some ''4.16.1''"
  proof (elim exE conjE bexE)
    fix p s
    assume run: "generateCriticalIssuePath sampleClock scenarioB = Some p"
      and mem: "s \<in> set (steps p)" and ty: "type_step s = Cluster"
    from platform_step_target [of sampleClock scenarioB p s] run mem ty updates
    have "toVersion s = Some ''4.16.1''" by simp
    with run mem ty show ?thesis by blast
  qed
  have "\<exists>p. generateBalancedPath sampleClock scenarioB = Inr (Some p)
          \<and> (\<exists>s \<in> set (steps p). type_step s = Cluster)"
    by (simp add: planner_eval step_eval sample_eval lifecycle_eval semver_eval text_eval Let_def)
  then have balanced: "\<exists>p s. generateBalancedPath sampleClock scenarioB = Inr (Some p)
      \<and> s \<in> set (steps p) \<and> type_step s = Cluster \<and> toVersion s = Some ''4.16.1''"
  proof (elim exE conjE bexE)
    fix p s
    assume run: "generateBalancedPath sampleClock scenarioB = Inr (Some p)"
      and mem: "s \<in> set (steps p)" and ty: "type_step s = Cluster"
    from platform_step_target [of sampleClock scenarioB p s] run mem ty updates
    have "toVersion s = Some ''4.16.1''" by simp
    with run mem ty show ?thesis by blast
  qed
  from aggressive critical balanced show ?thesis by simp
qed

lemma recommendations_keep_snapshot:
  "getUpgradeRecommendations clk (Inr status) = Inr r \<Longrightarrow> platformStatus r = status"
  by (auto simp: getUpgradeRecommendations_def split: sum.splits)

text \<open>
  Claim C8. A component whose \<open>availableUpgrades\<close> is empty gets no operator step in any
  path of the four strategies, whether or not it has issues: every operator step of a
  generated path is the step of an operator of the snapshot that has an upgrade, and it
  carries that operator's name and one of its upgrades. A step names its component by
  the installation name, so no operator step names a component without upgrades unless
  another component of the same name has one. The snapshot in the recommendation
  bundle is the input snapshot, so the component's issues are still in its status.
\<close>

theorem no_step_without_upgrade:
  assumes "generateCriticalIssuePath clk status = Some p
           \<or> generateConservativePath clk status = Inr (Some p)
           \<or> generateAggressivePath clk status = Inr (Some p)
           \<or> generateBalancedPath clk status = Inr (Some p)"
  shows "(\<forall>s \<in> set (steps p). type_step s = Operator \<longrightarrow>
            (\<exists>op \<in> set (operators status). availableUpgrades op \<noteq> [] \<and> upgradesOperator op s))
         \<and> (\<forall>z \<in> set (operators status).
              (\<forall>op \<in> set (operators status).
                 name_inst (installation op) = name_inst (installation z) \<longrightarrow> availableUpgrades op = []) \<longrightarrow>
              \<not> (\<exists>s \<in> set (steps p). type_step s = Operator \<and> target s = name_inst (installation z)))
         \<and> (\<forall>r. getUpgradeRecommendations clk (Inr status) = Inr r \<longrightarrow> platformStatus r = status)"
proof (intro conjI)
  show source: "\<forall>s \<in> set (steps p). type_step s = Operator \<longrightarrow>
            (\<exists>op \<in> set (operators status). availableUpgrades op \<noteq> [] \<and> upgradesOperator op s)"
    using generated_operator_step [OF assms] by blast
  show "\<forall>z \<in> set (operators status).
              (\<forall>op \<in> set (operators status).
                 name_inst (installation op) = name_inst (installation z) \<longrightarrow> availableUpgrades op = []) \<longrightarrow>
              \<not> (\<exists>s \<in> set (steps p). type_step s = Operator \<and> target s = name_inst (installation z))"
  proof (intro ballI impI notI)
    fix z
    assume same: "\<forall>op \<in> set (operators status).
                 name_inst (installation op) = name_inst (installation z) \<longrightarrow> availableUpgrades op = []"
      and "\<exists>s \<in> set (steps p). type_step s = Operator \<and> target s = name_inst (installation z)"
    then obtain s where s: "s \<in> set (steps p)" "type_step s = Operator"
      "target s = name_inst (installation z)" by blast
    with source obtain op where op: "op \<in> set (operators status)" "availableUpgrades op \<noteq> []"
      "upgradesOperator op s" by blast
    from op(3) s(3) have "name_inst (installation op) = name_inst (installation z)"
      by (simp add: upgradesOperator_def)
    with same op(1,2) show False by blast
  qed
  show "\<forall>r. getUpgradeRecommendations clk (Inr status) = Inr r \<longrightarrow> platformStatus r = status"
    using recommendations_keep_snapshot by blast
qed

theorem no_step_without_upgrade_witness:
  "\<exists>p r. generateBalancedPath sampleClock scenarioC = Inr (Some p)
     \<and> operatorZ \<in> set (operators scenarioC) \<and> availableUpgrades operatorZ = []
     \<and> map id_issue (issues operatorZ) = [''operator-z-stale-channel'']
     \<and> \<not> (\<exists>s \<in> set (steps p). type_step s = Operator \<and> target s = ''operator-z'')
     \<and> (\<exists>s \<in> set (steps p). type_step s = Operator \<and> target s = ''operator-y'')
     \<and> getUpgradeRecommendations sampleClock (Inr scenarioC) = Inr r
     \<and> operatorZ \<in> set (operators (platformStatus r))"
proof -
  have member: "operatorZ \<in> set (operators scenarioC)"
    by (simp add: scenarioC_def samplePlatform_def)
  have empty: "availableUpgrades operatorZ = []"
    and ids: "map id_issue (issues operatorZ) = [''operator-z-stale-channel'']"
    and name: "name_inst (installation operatorZ) = ''operator-z''"
    by (simp_all add: operatorZ_def sampleInstallation_def staleChannelIssue_def)
  have alone: "\<forall>op \<in> set (operators scenarioC).
      name_inst (installation op) = name_inst (installation operatorZ) \<longrightarrow> availableUpgrades op = []"
    by (simp add: sample_eval)
  have "\<exists>p. generateBalancedPath sampleClock scenarioC = Inr (Some p)
          \<and> (\<exists>s \<in> set (steps p). type_step s = Operator \<and> target s = ''operator-y'')"
    by (simp add: planner_eval step_eval sample_eval lifecycle_eval semver_eval text_eval Let_def)
  moreover have "\<exists>r. getUpgradeRecommendations sampleClock (Inr scenarioC) = Inr r"
    by (simp add: planner_eval step_eval sample_eval lifecycle_eval semver_eval text_eval
        duration_eval Let_def)
  ultimately show ?thesis
  proof (elim exE conjE)
    fix p r
    assume run: "generateBalancedPath sampleClock scenarioC = Inr (Some p)"
      and y: "\<exists>s \<in> set (steps p). type_step s = Operator \<and> target s = ''operator-y''"
      and recs: "getUpgradeRecommendations sampleClock (Inr scenarioC) = Inr r"
    from run have "generateCriticalIssuePath sampleClock scenarioC = Some p
           \<or> generateConservativePath sampleClock scenarioC = Inr (Some p)
           \<or> generateAggressivePath sampleClock scenarioC = Inr (Some p)
           \<or> generateBalancedPath sampleClock scenarioC = Inr (Some p)" by simp
    from no_step_without_upgrade [OF this] member alone name recs
    have "\<not> (\<exists>s \<in> set (steps p). type_step s = Operator \<and> target s = ''operator-z'')"
      and "platformStatus r = scenarioC"
      by auto
    with run y recs member empty ids show ?thesis by auto
  qed
qed

section \<open>Unparseable versions\<close>

lemma semver_compare_valid:
  "semver_valid a \<Longrightarrow> semver_valid b \<Longrightarrow> \<exists>c. semver_compare a b = Inr c"
  by (auto simp: semver_valid_def semver_parse_def semver_compare_def split: sum.splits)

lemma semver_gt_valid:
  "semver_gt a b = Inr r \<Longrightarrow> semver_valid a \<and> semver_valid b"
  by (auto simp: semver_valid_def semver_parse_def semver_compare_def semver_gt_def split: sum.splits)

lemma detectAvailableUpgrades_total:
  "\<exists>ups. detectAvailableUpgrades clk lifecycleOf inst chans = Inr ups"
proof (induction chans)
  case Nil
  show ?case by simp
next
  case (Cons chan rest)
  then obtain ups where rest: "detectAvailableUpgrades clk lifecycleOf inst rest = Inr ups" by blast
  show ?case
  proof (cases "semver_valid (cleanVersion (currentVersion_inst inst))
      \<and> semver_valid (cleanVersion (currentCSV chan))")
    case True
    with semver_compare_valid [of "cleanVersion (currentCSV chan)" "cleanVersion (currentVersion_inst inst)"]
    obtain newer where "semver_gt (cleanVersion (currentCSV chan)) (cleanVersion (currentVersion_inst inst)) = Inr newer"
      by (auto simp: semver_gt_def)
    with True rest show ?thesis by (simp add: Let_def)
  next
    case False
    with rest show ?thesis by (auto simp: Let_def)
  qed
qed

lemma detectAvailableUpgrades_source:
  "detectAvailableUpgrades clk lifecycleOf inst chans = Inr ups \<Longrightarrow> u \<in> set ups \<Longrightarrow>
   \<exists>c \<in> set chans. targetVersion u = currentCSV c \<and> channel_upg u = name_chan c
     \<and> semver_gt (cleanVersion (currentCSV c)) (cleanVersion (currentVersion_inst inst)) = Inr True"
proof (induction chans arbitrary: ups)
  case Nil
  then show ?case by simp
next
  case (Cons chan rest)
  from detectAvailableUpgrades_total obtain ups' where
    rest: "detectAvailableUpgrades clk lifecycleOf inst rest = Inr ups'" by blast
  show ?case
  proof (cases "u \<in> set ups'")
    case True
    from Cons.IH [OF rest True] show ?thesis by auto
  next
    case False
    with Cons.prems rest show ?thesis
      by (auto simp: Let_def split: if_splits sum.splits)
  qed
qed

lemma versionCeiling_source:
  assumes "detectUpgradeIssues clk inst life chan (Inr updates) = Inr iss"
    and "i \<in> set iss" and "type_issue i = VERSION_CEILING"
  shows "updates \<noteq> [] \<and> (\<exists>bound. maxOCPVersion life = Some bound
           \<and> semver_gt (extractVersionFromUpdate (updates ! 0)) bound = Inr True)"
proof -
  from assms(1) obtain ceiling where
    check: "versionCeilingCheck clk inst life updates = Inr ceiling"
    and iss: "iss = (if deprecated chan then [staleChannelIssue clk inst chan] else [])
        @ (if supportPhase life = MAINTENANCE_SUPPORT then [maintenanceIssue clk inst] else [])
        @ (if supportPhase life = END_OF_LIFE then [eolIssue clk inst] else []) @ ceiling"
    by (auto simp: detectUpgradeIssues_def Let_def split: sum.splits)
  from iss assms(2,3) have "i \<in> set ceiling"
    by (auto simp: staleChannelIssue_def maintenanceIssue_def eolIssue_def split: if_splits)
  with check show ?thesis
    by (auto simp: versionCeilingCheck_def Let_def split: option.splits if_splits sum.splits)
qed

lemma built_upgrades:
  assumes "getOperatorStatus c l f1 f2 f3 = Some op" and "u \<in> set (availableUpgrades op)"
  shows "semver_gt (cleanVersion (targetVersion u))
           (cleanVersion (currentVersion_inst (installation op))) = Inr True"
proof -
  from assms(1) obtain inst chans where
    run: "detectAvailableUpgrades c l inst chans = Inr (availableUpgrades op)"
    and inst: "installation op = inst"
    by (auto simp: getOperatorStatus_def Let_def split: sum.splits option.splits)
  from detectAvailableUpgrades_source [OF run assms(2)] inst show ?thesis by auto
qed

lemma built_unparsed_empty:
  assumes "getOperatorStatus c l f1 f2 f3 = Some op"
    and "\<not> semver_valid (cleanVersion (currentVersion_inst (installation op)))"
  shows "availableUpgrades op = []"
proof (rule ccontr)
  assume "availableUpgrades op \<noteq> []"
  then obtain u where "u \<in> set (availableUpgrades op)" by (cases "availableUpgrades op") auto
  from semver_gt_valid [OF built_upgrades [OF assms(1) this]] assms(2) show False by simp
qed

text \<open>
  Claim C5. Where one side of a version comparison does not parse, the operation
  using it skips. \<open>detectAvailableUpgrades\<close> always returns, and only with upgrades to
  a channel whose version and the installed version both clean to valid versions, the
  channel's being greater; \<open>isSignificantlyOutdated\<close> is false unless both of its
  versions are valid; \<open>detectUpgradeIssues\<close> reports a version ceiling only if the
  bound \<open>maxOCPVersion\<close> and the next available update are both valid versions, the
  update being greater. So an operator status built by \<open>getOperatorStatus\<close> whose
  installed version does not parse has no available upgrade, and in a snapshot of such
  statuses every operator step of every generated path goes from a valid installed
  version to a valid, greater target version: no upgrade is recommended on an
  incomparable pair.
\<close>

theorem unparseable_versions_skip:
  "(\<exists>ups. detectAvailableUpgrades clk lifecycleOf inst chans = Inr ups)
   \<and> (detectAvailableUpgrades clk lifecycleOf inst chans = Inr ups \<and> u \<in> set ups \<longrightarrow>
        semver_valid (cleanVersion (currentVersion_inst inst))
        \<and> (\<exists>c \<in> set chans. targetVersion u = currentCSV c \<and> semver_valid (cleanVersion (currentCSV c))
              \<and> semver_gt (cleanVersion (currentCSV c)) (cleanVersion (currentVersion_inst inst)) = Inr True))
   \<and> (isSignificantlyOutdated operator \<noteq> Inr False \<longrightarrow>
        semver_valid (cleanVersion (currentVersion_inst (installation operator)))
        \<and> semver_valid (cleanVersion (targetVersion (last (availableUpgrades operator)))))
   \<and> (detectUpgradeIssues clk inst life chan (Inr updates) = Inr iss \<and> i \<in> set iss
        \<and> type_issue i = VERSION_CEILING \<longrightarrow>
        updates \<noteq> []
        \<and> (\<exists>bound. maxOCPVersion life = Some bound \<and> semver_valid bound
              \<and> semver_valid (extractVersionFromUpdate (updates ! 0))
              \<and> semver_gt (extractVersionFromUpdate (updates ! 0)) bound = Inr True))
   \<and> (getOperatorStatus clk lifecycleOf fetchedSubscription fetchedChannels fetchedClusterVersion
          = Some built
        \<and> \<not> semver_valid (cleanVersion (currentVersion_inst (installation built))) \<longrightarrow>
        availableUpgrades built = [])
   \<and> ((\<forall>op \<in> set (operators status). \<exists>c l f1 f2 f3. getOperatorStatus c l f1 f2 f3 = Some op)
        \<and> (generateCriticalIssuePath clk status = Some p
            \<or> generateConservativePath clk status = Inr (Some p)
            \<or> generateAggressivePath clk status = Inr (Some p)
            \<or> generateBalancedPath clk status = Inr (Some p))
        \<and> s \<in> set (steps p) \<and> type_step s = Operator \<longrightarrow>
        (\<exists>op \<in> set (operators status). \<exists>t \<in> set (availableUpgrades op).
            upgradesOperator op s \<and> toVersion s = Some (targetVersion t)
            \<and> semver_valid (cleanVersion (currentVersion_inst (installation op)))
            \<and> semver_valid (cleanVersion (targetVersion t))
            \<and> semver_gt (cleanVersion (targetVersion t))
                 (cleanVersion (currentVersion_inst (installation op))) = Inr True))"
proof (intro conjI impI)
  show "\<exists>ups. detectAvailableUpgrades clk lifecycleOf inst chans = Inr ups"
    by (rule detectAvailableUpgrades_total)
next
  assume a: "detectAvailableUpgrades clk lifecycleOf inst chans = Inr ups \<and> u \<in> set ups"
  then have run: "detectAvailableUpgrades clk lifecycleOf inst chans = Inr ups" and mem: "u \<in> set ups"
    by simp_all
  from detectAvailableUpgrades_source [OF run mem] obtain c where
    c: "c \<in> set chans" "targetVersion u = currentCSV c"
      "semver_gt (cleanVersion (currentCSV c)) (cleanVersion (currentVersion_inst inst)) = Inr True"
    by blast
  from semver_gt_valid [OF c(3)] show "semver_valid (cleanVersion (currentVersion_inst inst))"
    by simp
  from semver_gt_valid [OF c(3)] c
  show "\<exists>c \<in> set chans. targetVersion u = currentCSV c \<and> semver_valid (cleanVersion (currentCSV c))
      \<and> semver_gt (cleanVersion (currentCSV c)) (cleanVersion (currentVersion_inst inst)) = Inr True"
    by blast
next
  assume a: "isSignificantlyOutdated operator \<noteq> Inr False"
  then show "semver_valid (cleanVersion (currentVersion_inst (installation operator)))"
    and "semver_valid (cleanVersion (targetVersion (last (availableUpgrades operator))))"
    by (auto simp: isSignificantlyOutdated_def Let_def split: if_splits)
next
  assume a: "detectUpgradeIssues clk inst life chan (Inr updates) = Inr iss \<and> i \<in> set iss
        \<and> type_issue i = VERSION_CEILING"
  then have "detectUpgradeIssues clk inst life chan (Inr updates) = Inr iss" "i \<in> set iss"
    "type_issue i = VERSION_CEILING" by simp_all
  from versionCeiling_source [OF this] obtain bound where
    b: "updates \<noteq> []" "maxOCPVersion life = Some bound"
      "semver_gt (extractVersionFromUpdate (updates ! 0)) bound = Inr True" by blast
  from b(1) show "updates \<noteq> []" .
  from semver_gt_valid [OF b(3)] b
  show "\<exists>bound. maxOCPVersion life = Some bound \<and> semver_valid bound
      \<and> semver_valid (extractVersionFromUpdate (updates ! 0))
      \<and> semver_gt (extractVersionFromUpdate (updates ! 0)) bound = Inr True"
    by blast
next
  assume "getOperatorStatus clk lifecycleOf fetchedSubscription fetchedChannels fetchedClusterVersion
          = Some built
        \<and> \<not> semver_valid (cleanVersion (currentVersion_inst (installation built)))"
  then show "availableUpgrades built = []"
    using built_unparsed_empty by blast
next
  assume a: "(\<forall>op \<in> set (operators status). \<exists>c l f1 f2 f3. getOperatorStatus c l f1 f2 f3 = Some op)
        \<and> (generateCriticalIssuePath clk status = Some p
            \<or> generateConservativePath clk status = Inr (Some p)
            \<or> generateAggressivePath clk status = Inr (Some p)
            \<or> generateBalancedPath clk status = Inr (Some p))
        \<and> s \<in> set (steps p) \<and> type_step s = Operator"
  then have generated: "generateCriticalIssuePath clk status = Some p
            \<or> generateConservativePath clk status = Inr (Some p)
            \<or> generateAggressivePath clk status = Inr (Some p)
            \<or> generateBalancedPath clk status = Inr (Some p)"
    and mem: "s \<in> set (steps p)" and ty: "type_step s = Operator"
    by simp_all
  from generated_operator_step [OF generated mem ty] obtain op where
    op: "op \<in> set (operators status)" "upgradesOperator op s" by blast
  from op(2) obtain t where t: "t \<in> set (availableUpgrades op)" "toVersion s = Some (targetVersion t)"
    by (auto simp: upgradesOperator_def list_ex_iff)
  from a op(1) obtain c l f1 f2 f3 where "getOperatorStatus c l f1 f2 f3 = Some op" by blast
  from built_upgrades [OF this t(1)]
  have gt: "semver_gt (cleanVersion (targetVersion t))
      (cleanVersion (currentVersion_inst (installation op))) = Inr True" .
  from semver_gt_valid [OF gt] gt op t
  show "\<exists>op \<in> set (operators status). \<exists>t \<in> set (availableUpgrades op).
            upgradesOperator op s \<and> toVersion s = Some (targetVersion t)
            \<and> semver_valid (cleanVersion (currentVersion_inst (installation op)))
            \<and> semver_valid (cleanVersion (targetVersion t))
            \<and> semver_gt (cleanVersion (targetVersion t))
                 (cleanVersion (currentVersion_inst (installation op))) = Inr True"
    by blast
qed

lemma built_samples:
  "getOperatorStatus sampleClock (sampleLifecycle FULL_SUPPORT None)
     (Inr (Some (sampleInstallation ''operator-g'' ''operator-g.v1.2.0'')))
     (Inr channelsG) (Inr [UpdateString ''4.16.1'']) = Some operatorG"
  "getOperatorStatus sampleClock (sampleLifecycle FULL_SUPPORT None)
     (Inr (Some (sampleInstallation ''operator-n'' ''unknown'')))
     (Inr [sampleChannel ''stable'' ''operator-n.v2.0.0'' True]) (Inr [UpdateString ''4.16.1''])
     = Some operatorN"
  by (simp_all add: lifecycle_eval sample_eval semver_eval text_eval Let_def)

lemma built_scenarioG:
  "\<forall>op \<in> set (operators scenarioG). \<exists>c l f1 f2 f3. getOperatorStatus c l f1 f2 f3 = Some op"
proof -
  have "operators scenarioG = [operatorG, operatorN]"
    by (simp add: scenarioG_def samplePlatform_def)
  moreover have "\<exists>c l f1 f2 f3. getOperatorStatus c l f1 f2 f3 = Some operatorG"
    by (intro exI) (rule built_samples(1))
  moreover have "\<exists>c l f1 f2 f3. getOperatorStatus c l f1 f2 f3 = Some operatorN"
    by (intro exI) (rule built_samples(2))
  ultimately show ?thesis by simp
qed

theorem unparseable_versions_skip_witness:
  "(detectAvailableUpgrades sampleClock (sampleLifecycle FULL_SUPPORT None)
        (sampleInstallation ''operator-g'' ''operator-g.v1.2.0'') channelsG
        = Inr (availableUpgrades operatorG)
      \<and> map targetVersion (availableUpgrades operatorG) = [''operator-g.v1.2.5'', ''operator-g.v1.3.0'']
      \<and> semver_valid (cleanVersion (currentVersion_inst
            (sampleInstallation ''operator-g'' ''operator-g.v1.2.0''))))
   \<and> (isSignificantlyOutdated operatorG = Inr True
      \<and> semver_valid (cleanVersion (currentVersion_inst (installation operatorG))))
   \<and> (\<exists>iss i. detectUpgradeIssues sampleClock (sampleInstallation ''operator-y'' ''1.4.2'')
        (sampleLifecycle FULL_SUPPORT (Some ''4.16.0'') ''operator-y'' ''1.4.2'')
        (sampleChannel ''stable'' ''1.4.2'' False) (Inr [UpdateString ''4.16.1'']) = Inr iss
      \<and> i \<in> set iss \<and> type_issue i = VERSION_CEILING \<and> semver_valid ''4.16.0'')
   \<and> (\<not> semver_valid (cleanVersion (currentVersion_inst (installation operatorN)))
      \<and> availableUpgrades operatorN = [])
   \<and> (\<exists>p s. generateAggressivePath sampleClock scenarioG = Inr (Some p) \<and> s \<in> set (steps p)
      \<and> type_step s = Operator
      \<and> (\<exists>op \<in> set (operators scenarioG). \<exists>t \<in> set (availableUpgrades op).
            upgradesOperator op s \<and> toVersion s = Some (targetVersion t)
            \<and> semver_valid (cleanVersion (currentVersion_inst (installation op)))
            \<and> semver_valid (cleanVersion (targetVersion t))))"
proof -
  let ?inst = "sampleInstallation ''operator-g'' ''operator-g.v1.2.0''"
  have run: "detectAvailableUpgrades sampleClock (sampleLifecycle FULL_SUPPORT None) ?inst channelsG
      = Inr (availableUpgrades operatorG)"
    by (simp add: sample_eval lifecycle_eval semver_eval text_eval Let_def)
  have targets: "map targetVersion (availableUpgrades operatorG)
      = [''operator-g.v1.2.5'', ''operator-g.v1.3.0'']"
    by (simp add: operatorG_def sampleDetected_def)
  have mem: "last (availableUpgrades operatorG) \<in> set (availableUpgrades operatorG)"
    by (simp add: operatorG_def)
  from unparseable_versions_skip [where clk = sampleClock
      and lifecycleOf = "sampleLifecycle FULL_SUPPORT None" and inst = ?inst and chans = channelsG
      and ups = "availableUpgrades operatorG" and u = "last (availableUpgrades operatorG)"] run mem
  have "semver_valid (cleanVersion (currentVersion_inst ?inst))" by blast
  with run targets have detected: "detectAvailableUpgrades sampleClock (sampleLifecycle FULL_SUPPORT None) ?inst channelsG
        = Inr (availableUpgrades operatorG)
      \<and> map targetVersion (availableUpgrades operatorG) = [''operator-g.v1.2.5'', ''operator-g.v1.3.0'']
      \<and> semver_valid (cleanVersion (currentVersion_inst ?inst))"
    by simp
  have outdated: "isSignificantlyOutdated operatorG = Inr True"
    by (simp add: isSignificantlyOutdated_def sample_eval lifecycle_eval semver_eval text_eval Let_def)
  with unparseable_versions_skip [where operator = operatorG]
  have validG: "semver_valid (cleanVersion (currentVersion_inst (installation operatorG)))" by simp
  let ?life = "sampleLifecycle FULL_SUPPORT (Some ''4.16.0'') ''operator-y'' ''1.4.2''"
  have bound: "maxOCPVersion ?life = Some ''4.16.0''"
    by (simp add: sampleLifecycle_def)
  have "\<exists>iss i. detectUpgradeIssues sampleClock (sampleInstallation ''operator-y'' ''1.4.2'') ?life
        (sampleChannel ''stable'' ''1.4.2'' False) (Inr [UpdateString ''4.16.1'']) = Inr iss
      \<and> i \<in> set iss \<and> type_issue i = VERSION_CEILING"
    by (simp add: sample_eval lifecycle_eval semver_eval text_eval Let_def)
  then have ceiling: "\<exists>iss i. detectUpgradeIssues sampleClock (sampleInstallation ''operator-y'' ''1.4.2'') ?life
        (sampleChannel ''stable'' ''1.4.2'' False) (Inr [UpdateString ''4.16.1'']) = Inr iss
      \<and> i \<in> set iss \<and> type_issue i = VERSION_CEILING \<and> semver_valid ''4.16.0''"
  proof (elim exE conjE)
    fix iss i
    assume run: "detectUpgradeIssues sampleClock (sampleInstallation ''operator-y'' ''1.4.2'') ?life
        (sampleChannel ''stable'' ''1.4.2'' False) (Inr [UpdateString ''4.16.1'']) = Inr iss"
      and mem: "i \<in> set iss" and ty: "type_issue i = VERSION_CEILING"
    from unparseable_versions_skip [where clk = sampleClock
        and inst = "sampleInstallation ''operator-y'' ''1.4.2''" and life = ?life
        and chan = "sampleChannel ''stable'' ''1.4.2'' False"
        and updates = "[UpdateString ''4.16.1'']" and iss = iss and i = i] run mem ty bound
    have "semver_valid ''4.16.0''" by auto
    with run mem ty show ?thesis by blast
  qed
  have unparsed: "\<not> semver_valid (cleanVersion (currentVersion_inst (installation operatorN)))"
    by (simp add: sample_eval semver_eval text_eval Let_def)
  from unparseable_versions_skip [where clk = sampleClock
      and lifecycleOf = "sampleLifecycle FULL_SUPPORT None"
      and fetchedSubscription = "Inr (Some (sampleInstallation ''operator-n'' ''unknown''))"
      and fetchedChannels = "Inr [sampleChannel ''stable'' ''operator-n.v2.0.0'' True]"
      and fetchedClusterVersion = "Inr [UpdateString ''4.16.1'']" and built = operatorN]
    built_samples(2) unparsed
  have none: "availableUpgrades operatorN = []" by blast
  have "\<exists>p. generateAggressivePath sampleClock scenarioG = Inr (Some p)
          \<and> (\<exists>s \<in> set (steps p). type_step s = Operator)"
    by (simp add: planner_eval step_eval sample_eval lifecycle_eval semver_eval text_eval Let_def)
  then have stepped: "\<exists>p s. generateAggressivePath sampleClock scenarioG = Inr (Some p) \<and> s \<in> set (steps p)
      \<and> type_step s = Operator
      \<and> (\<exists>op \<in> set (operators scenarioG). \<exists>t \<in> set (availableUpgrades op).
            upgradesOperator op s \<and> toVersion s = Some (targetVersion t)
            \<and> semver_valid (cleanVersion (currentVersion_inst (installation op)))
            \<and> semver_valid (cleanVersion (targetVersion t)))"
  proof (elim exE conjE bexE)
    fix p s
    assume run: "generateAggressivePath sampleClock scenarioG = Inr (Some p)"
      and mem: "s \<in> set (steps p)" and ty: "type_step s = Operator"
    from unparseable_versions_skip [where clk = sampleClock and status = scenarioG and p = p and s = s]
      built_scenarioG run mem ty
    have "\<exists>op \<in> set (operators scenarioG). \<exists>t \<in> set (availableUpgrades op).
            upgradesOperator op s \<and> toVersion s = Some (targetVersion t)
            \<and> semver_valid (cleanVersion (currentVersion_inst (installation op)))
            \<and> semver_valid (cleanVersion (targetVersion t))"
      by blast
    with run mem ty show ?thesis by blast
  qed
  from detected outdated validG ceiling unparsed none stepped show ?thesis by simp
qed

section \<open>No exception on malformed versions\<close>

lemma semver_diff_valid:
  "semver_valid a \<Longrightarrow> semver_valid b \<Longrightarrow> \<exists>d. semver_diff a b = Inr d"
  by (auto simp: semver_valid_def semver_parse_def semver_diff_def split: sum.splits)

lemma semver_order_valid:
  "semver_valid a \<Longrightarrow> semver_valid b \<Longrightarrow>
   (\<exists>r. semver_gt a b = Inr r) \<and> (\<exists>r. semver_lt a b = Inr r)"
  using semver_compare_valid [of a b] by (auto simp: semver_gt_def semver_lt_def)

lemma reduceLatest_total:
  "semver_valid (cleanVersion (targetVersion latest)) \<Longrightarrow>
   \<forall>u \<in> set rest. semver_valid (cleanVersion (targetVersion u)) \<Longrightarrow>
   \<exists>r. reduceLatest latest rest = Inr r"
proof (induction rest arbitrary: latest)
  case Nil
  show ?case by simp
next
  case (Cons current rest)
  from Cons.prems have valid: "semver_valid (cleanVersion (targetVersion current))"
    and others: "\<forall>u \<in> set rest. semver_valid (cleanVersion (targetVersion u))" by simp_all
  from semver_order_valid [OF valid Cons.prems(1)] obtain b where
    b: "semver_gt (cleanVersion (targetVersion current)) (cleanVersion (targetVersion latest)) = Inr b"
    by blast
  from valid Cons.prems(1) have "semver_valid (cleanVersion (targetVersion (if b then current else latest)))"
    by simp
  from Cons.IH [OF this others] b show ?case by simp
qed

lemma reduceClosest_total:
  "semver_valid cv \<Longrightarrow> semver_valid (cleanVersion (targetVersion closest)) \<Longrightarrow>
   \<forall>u \<in> set rest. semver_valid (cleanVersion (targetVersion u)) \<Longrightarrow>
   \<exists>r. reduceClosest cv closest rest = Inr r"
proof (induction rest arbitrary: closest)
  case Nil
  show ?case by simp
next
  case (Cons current rest)
  from Cons.prems have valid: "semver_valid (cleanVersion (targetVersion current))"
    and others: "\<forall>u \<in> set rest. semver_valid (cleanVersion (targetVersion u))" by simp_all
  from semver_diff_valid [OF Cons.prems(1) valid] obtain d where
    d: "semver_diff cv (cleanVersion (targetVersion current)) = Inr d" by blast
  from semver_order_valid [OF valid Cons.prems(2)] obtain b where
    b: "semver_lt (cleanVersion (targetVersion current)) (cleanVersion (targetVersion closest)) = Inr b"
    by blast
  from valid Cons.prems(2) have pick: "semver_valid (cleanVersion (targetVersion (if b then current else closest)))"
    by simp
  from Cons.IH [OF Cons.prems(1) valid others] Cons.IH [OF Cons.prems(1) Cons.prems(2) others]
    Cons.IH [OF Cons.prems(1) pick others] d b
  show ?case by (simp add: Let_def)
qed

lemma findConservativeUpgrade_total:
  "\<forall>u \<in> set (availableUpgrades operator). semver_valid (cleanVersion (targetVersion u)) \<Longrightarrow>
   \<exists>r. findConservativeUpgrade operator = Inr r"
proof (cases "availableUpgrades operator")
  case Nil
  then show ?thesis by (simp add: findConservativeUpgrade_def)
next
  case (Cons first rest)
  assume valid: "\<forall>u \<in> set (availableUpgrades operator). semver_valid (cleanVersion (targetVersion u))"
  show ?thesis
  proof (cases "semver_parse (cleanVersion (currentVersion_inst (installation operator))) = None")
    case True
    with Cons show ?thesis by (simp add: findConservativeUpgrade_def)
  next
    case False
    then have "semver_valid (cleanVersion (currentVersion_inst (installation operator)))"
      by (simp add: semver_valid_def)
    from reduceClosest_total [OF this, of first rest] valid Cons obtain r where
      "reduceClosest (cleanVersion (currentVersion_inst (installation operator))) first rest = Inr r"
      by auto
    with Cons False show ?thesis by (auto simp: findConservativeUpgrade_def Let_def)
  qed
qed

lemma isSignificantlyOutdated_total: "\<exists>b. isSignificantlyOutdated operator = Inr b"
proof (cases "semver_valid (cleanVersion (currentVersion_inst (installation operator)))
    \<and> semver_valid (cleanVersion (targetVersion (last (availableUpgrades operator))))")
  case True
  with semver_diff_valid obtain d where
    "semver_diff (cleanVersion (currentVersion_inst (installation operator)))
       (cleanVersion (targetVersion (last (availableUpgrades operator)))) = Inr d" by blast
  with True show ?thesis by (auto simp: isSignificantlyOutdated_def Let_def)
next
  case False
  then show ?thesis by (auto simp: isSignificantlyOutdated_def Let_def)
qed

lemma detectUpgradeIssues_total: "\<exists>iss. detectUpgradeIssues clk inst life chan (Inr updates) = Inr iss"
proof -
  have "\<exists>ceiling. versionCeilingCheck clk inst life updates = Inr ceiling"
  proof (cases "maxOCPVersion life")
    case None
    then show ?thesis by (simp add: versionCeilingCheck_def)
  next
    case (Some bound)
    show ?thesis
    proof (cases "bound \<noteq> [] \<and> length updates > 0
        \<and> semver_valid (extractVersionFromUpdate (updates ! 0)) \<and> semver_valid bound")
      case True
      with semver_order_valid [of "extractVersionFromUpdate (updates ! 0)" bound] obtain b where
        "semver_gt (extractVersionFromUpdate (updates ! 0)) bound = Inr b" by blast
      with True Some show ?thesis by (simp add: versionCeilingCheck_def Let_def)
    next
      case False
      with Some show ?thesis by (auto simp: versionCeilingCheck_def Let_def)
    qed
  qed
  then show ?thesis by (auto simp: detectUpgradeIssues_def Let_def)
qed

lemma conservativeOperatorSteps_total:
  "\<forall>op \<in> set ops. \<forall>u \<in> set (availableUpgrades op). semver_valid (cleanVersion (targetVersion u)) \<Longrightarrow>
   \<exists>r. conservativeOperatorSteps ops acc = Inr r"
proof (induction ops arbitrary: acc)
  case Nil
  show ?case by (cases acc) simp
next
  case (Cons operator rest)
  obtain stps n where acc: "acc = (stps, n)" by (cases acc)
  from Cons.prems have "\<forall>u \<in> set (availableUpgrades operator). semver_valid (cleanVersion (targetVersion u))"
    and others: "\<forall>op \<in> set rest. \<forall>u \<in> set (availableUpgrades op). semver_valid (cleanVersion (targetVersion u))"
    by simp_all
  from findConservativeUpgrade_total [OF this(1)] obtain found where
    "findConservativeUpgrade operator = Inr found" by blast
  with Cons.IH [OF others] acc show ?case by (cases found) simp_all
qed

lemma aggressiveOperatorSteps_total:
  "\<forall>op \<in> set ops. \<forall>u \<in> set (availableUpgrades op). semver_valid (cleanVersion (targetVersion u)) \<Longrightarrow>
   \<exists>r. aggressiveOperatorSteps ops acc = Inr r"
proof (induction ops arbitrary: acc)
  case Nil
  show ?case by (cases acc) simp
next
  case (Cons operator rest)
  obtain stps n where acc: "acc = (stps, n)" by (cases acc)
  from Cons.prems have valid: "\<forall>u \<in> set (availableUpgrades operator). semver_valid (cleanVersion (targetVersion u))"
    and others: "\<forall>op \<in> set rest. \<forall>u \<in> set (availableUpgrades op). semver_valid (cleanVersion (targetVersion u))"
    by simp_all
  show ?case
  proof (cases "availableUpgrades operator")
    case Nil
    with Cons.IH [OF others] acc show ?thesis by simp
  next
    case (Cons first rest')
    with valid reduceLatest_total [of first rest'] obtain latest where
      "reduceLatest first rest' = Inr latest" by auto
    with Cons Cons.IH [OF others] acc show ?thesis by simp
  qed
qed

lemma balancedOperatorSteps_total: "\<exists>r. balancedOperatorSteps ops acc = Inr r"
proof (induction ops arbitrary: acc)
  case Nil
  show ?case by (cases acc) simp
next
  case (Cons operator rest)
  obtain stps n where acc: "acc = (stps, n)" by (cases acc)
  have "\<exists>should. shouldUpgrade operator = Inr should"
    using isSignificantlyOutdated_total [of operator] by (auto simp: shouldUpgrade_def)
  then obtain should where "shouldUpgrade operator = Inr should" ..
  with Cons.IH acc show ?case
    by (cases "findBalancedUpgrade operator") simp_all
qed

lemma built_paths_total:
  assumes "\<forall>op \<in> set (operators status). \<exists>c l f1 f2 f3. getOperatorStatus c l f1 f2 f3 = Some op"
  shows "(\<exists>p. generateConservativePath clk status = Inr p)
         \<and> (\<exists>p. generateAggressivePath clk status = Inr p)
         \<and> (\<exists>p. generateBalancedPath clk status = Inr p)"
proof -
  have valid: "\<forall>op \<in> set (operators status). \<forall>u \<in> set (availableUpgrades op).
      semver_valid (cleanVersion (targetVersion u))"
  proof (intro ballI)
    fix op u
    assume "op \<in> set (operators status)" and u: "u \<in> set (availableUpgrades op)"
    with assms obtain c l f1 f2 f3 where "getOperatorStatus c l f1 f2 f3 = Some op" by blast
    from semver_gt_valid [OF built_upgrades [OF this u]]
    show "semver_valid (cleanVersion (targetVersion u))" by simp
  qed
  let ?warn = "filter (\<lambda>op. list_ex (\<lambda>i. severity i = WARNING) (issues op)) (operators status)"
  from valid have "\<forall>op \<in> set ?warn. \<forall>u \<in> set (availableUpgrades op).
      semver_valid (cleanVersion (targetVersion u))" by auto
  from conservativeOperatorSteps_total [OF this] obtain r1 where
    "conservativeOperatorSteps ?warn ([verificationStep 1], 2) = Inr r1" by blast
  then have conservative: "\<exists>p. generateConservativePath clk status = Inr p"
    by (cases r1) (simp add: generateConservativePath_def Let_def)
  from aggressiveOperatorSteps_total [OF valid] obtain r2 where
    "aggressiveOperatorSteps (operators status) ([verificationStep 1], 2) = Inr r2" by blast
  then have aggressive: "\<exists>p. generateAggressivePath clk status = Inr p"
    by (cases r2) (simp add: generateAggressivePath_def Let_def)
  from balancedOperatorSteps_total obtain r3 where
    "balancedOperatorSteps (operators status) ([verificationStep 1], 2) = Inr r3" by blast
  then have balanced: "\<exists>p. generateBalancedPath clk status = Inr p"
    by (cases r3) (simp add: generateBalancedPath_def Let_def)
  from conservative aggressive balanced show ?thesis by simp
qed

text \<open>
  Claim C3. Malformed version strings never make the comparison, detection and path
  generation functions raise. \<open>cleanVersion\<close>, \<open>semver.parse\<close> and \<open>semver.valid\<close> return
  a value for every string, and the throwing comparisons are only reached with valid
  versions: for every installation, channel list, lifecycle record and cluster update
  list, whatever their version strings, \<open>detectAvailableUpgrades\<close>,
  \<open>detectUpgradeIssues\<close> and \<open>isSignificantlyOutdated\<close> return; and for every snapshot
  whose operator statuses are built by \<open>getOperatorStatus\<close>, the only source of the
  snapshots that the planner is given, each path generator returns and so do
  \<open>generateUpgradePaths\<close> and the recommendation request.
  (\<open>generateCriticalIssuePath\<close> compares no versions.)
\<close>

theorem no_raise_on_malformed_versions:
  "(\<exists>ups. detectAvailableUpgrades clk lifecycleOf inst chans = Inr ups)
   \<and> (\<exists>iss. detectUpgradeIssues clk inst life chan (Inr updates) = Inr iss)
   \<and> (\<exists>b. isSignificantlyOutdated operator = Inr b)
   \<and> (semver_valid a \<and> semver_valid b \<longrightarrow>
        (\<exists>r. semver_gt a b = Inr r) \<and> (\<exists>r. semver_lt a b = Inr r) \<and> (\<exists>d. semver_diff a b = Inr d))
   \<and> ((\<forall>op \<in> set (operators status). \<exists>c l f1 f2 f3. getOperatorStatus c l f1 f2 f3 = Some op) \<longrightarrow>
        (\<exists>p. generateConservativePath clk status = Inr p)
        \<and> (\<exists>p. generateAggressivePath clk status = Inr p)
        \<and> (\<exists>p. generateBalancedPath clk status = Inr p)
        \<and> (\<exists>paths. generateUpgradePaths clk status = Inr paths)
        \<and> (\<exists>r. getUpgradeRecommendations clk (Inr status) = Inr r))"
proof (intro conjI impI)
  show "\<exists>ups. detectAvailableUpgrades clk lifecycleOf inst chans = Inr ups"
    by (rule detectAvailableUpgrades_total)
  show "\<exists>iss. detectUpgradeIssues clk inst life chan (Inr updates) = Inr iss"
    by (rule detectUpgradeIssues_total)
  show "\<exists>b. isSignificantlyOutdated operator = Inr b"
    by (rule isSignificantlyOutdated_total)
next
  assume "semver_valid a \<and> semver_valid b"
  then have a: "semver_valid a" and b: "semver_valid b" by simp_all
  from semver_order_valid [OF a b]
  show "\<exists>r. semver_gt a b = Inr r" and "\<exists>r. semver_lt a b = Inr r" by simp_all
  from semver_diff_valid [OF a b] show "\<exists>d. semver_diff a b = Inr d" .
next
  assume built: "\<forall>op \<in> set (operators status). \<exists>c l f1 f2 f3. getOperatorStatus c l f1 f2 f3 = Some op"
  from built_paths_total [OF built, of clk] obtain p1 p2 p3 where
    runs: "generateConservativePath clk status = Inr p1"
      "generateAggressivePath clk status = Inr p2"
      "generateBalancedPath clk status = Inr p3" by blast
  from runs show "\<exists>p. generateConservativePath clk status = Inr p"
    and "\<exists>p. generateAggressivePath clk status = Inr p"
    and "\<exists>p. generateBalancedPath clk status = Inr p" by simp_all
  from runs have paths: "\<exists>paths. generateUpgradePaths clk status = Inr paths"
    by (simp add: generateUpgradePaths_def Let_def)
  then show "\<exists>paths. generateUpgradePaths clk status = Inr paths" .
  from paths show "\<exists>r. getUpgradeRecommendations clk (Inr status) = Inr r"
    by (auto simp: getUpgradeRecommendations_def)
qed

theorem no_raise_on_malformed_versions_witness:
  "getOperatorStatus sampleClock (sampleLifecycle FULL_SUPPORT None)
     (Inr (Some (sampleInstallation ''operator-g'' ''operator-g.v1.2.0'')))
     (Inr channelsG) (Inr [UpdateString ''4.16.1'']) = Some operatorG
   \<and> getOperatorStatus sampleClock (sampleLifecycle FULL_SUPPORT None)
     (Inr (Some (sampleInstallation ''operator-n'' ''unknown'')))
     (Inr [sampleChannel ''stable'' ''operator-n.v2.0.0'' True]) (Inr [UpdateString ''4.16.1''])
     = Some operatorN
   \<and> operators scenarioG = [operatorG, operatorN]
   \<and> cleanVersion ''unknown'' = ''unknown'' \<and> cleanVersion ''latest'' = ''latest''
   \<and> semver_valid (cleanVersion ''operator-g.v1.2.5'') \<and> semver_valid (cleanVersion ''operator-g.v1.3.0'')
   \<and> (\<exists>r. semver_gt (cleanVersion ''operator-g.v1.3.0'') (cleanVersion ''operator-g.v1.2.5'') = Inr r)
   \<and> (\<exists>p. generateAggressivePath sampleClock scenarioG = Inr p)
   \<and> (\<exists>paths. generateUpgradePaths sampleClock scenarioG = Inr paths)
   \<and> (\<exists>r. getUpgradeRecommendations sampleClock (Inr scenarioG) = Inr r)"
proof -
  have ops: "operators scenarioG = [operatorG, operatorN]"
    by (simp add: scenarioG_def samplePlatform_def)
  have opaque: "cleanVersion ''unknown'' = ''unknown''" "cleanVersion ''latest'' = ''latest''"
    by (simp_all add: semver_eval text_eval)
  have valid: "semver_valid (cleanVersion ''operator-g.v1.2.5'')
      \<and> semver_valid (cleanVersion ''operator-g.v1.3.0'')"
    by (simp add: semver_eval text_eval Let_def)
  from no_raise_on_malformed_versions [where a = "cleanVersion ''operator-g.v1.3.0''"
      and b = "cleanVersion ''operator-g.v1.2.5''"] valid
  have compared: "\<exists>r. semver_gt (cleanVersion ''operator-g.v1.3.0'') (cleanVersion ''operator-g.v1.2.5'') = Inr r"
    by blast
  from no_raise_on_malformed_versions [where clk = sampleClock and status = scenarioG] built_scenarioG
  have "(\<exists>p. generateAggressivePath sampleClock scenarioG = Inr p)
      \<and> (\<exists>paths. generateUpgradePaths sampleClock scenarioG = Inr paths)
      \<and> (\<exists>r. getUpgradeRecommendations sampleClock (Inr scenarioG) = Inr r)"
    by blast
  with built_samples ops opaque valid compared show ?thesis by simp
qed

section \<open>Determinism\<close>

lemma critical_clock:
  "generateCriticalIssuePath clk status
     = map_option (\<lambda>p. p\<lparr>supportedUntil := addMonths clk (dateNow clk) 18\<rparr>)
         (generateCriticalIssuePath clk' status)"
  by (simp add: generateCriticalIssuePath_def calculateSupportedUntil_def Let_def split: prod.splits)

lemma conservative_clock:
  "generateConservativePath clk status
     = map_sum id (map_option (\<lambda>p. p\<lparr>supportedUntil := addMonths clk (dateNow clk) 18\<rparr>))
         (generateConservativePath clk' status)"
  by (simp add: generateConservativePath_def calculateSupportedUntil_def Let_def
      split: sum.splits prod.splits)

lemma aggressive_clock:
  "generateAggressivePath clk status
     = map_sum id (map_option (\<lambda>p. p\<lparr>supportedUntil := addMonths clk (dateNow clk) 18\<rparr>))
         (generateAggressivePath clk' status)"
  by (simp add: generateAggressivePath_def calculateSupportedUntil_def Let_def
      split: sum.splits prod.splits)

lemma balanced_clock:
  "generateBalancedPath clk status
     = map_sum id (map_option (\<lambda>p. p\<lparr>supportedUntil := addMonths clk (dateNow clk) 18\<rparr>))
         (generateBalancedPath clk' status)"
  by (simp add: generateBalancedPath_def calculateSupportedUntil_def Let_def
      split: sum.splits prod.splits)

lemma paths_clock:
  "map_sum id (map (\<lambda>p. p\<lparr>supportedUntil := 0\<rparr>)) (generateUpgradePaths clk status)
     = map_sum id (map (\<lambda>p. p\<lparr>supportedUntil := 0\<rparr>)) (generateUpgradePaths clk' status)"
  unfolding generateUpgradePaths_def Let_def
  by (simp add: critical_clock [of clk status clk'] conservative_clock [of clk status clk']
      aggressive_clock [of clk status clk'] balanced_clock [of clk status clk'] pushPath_def
      split: sum.splits option.splits)

lemma issues_clock:
  "map_sum id (map (\<lambda>i. i\<lparr>detectedAt := 0\<rparr>)) (detectUpgradeIssues clk inst life chan fetched)
     = map_sum id (map (\<lambda>i. i\<lparr>detectedAt := 0\<rparr>)) (detectUpgradeIssues clk' inst life chan fetched)"
  by (simp add: detectUpgradeIssues_def versionCeilingCheck_def staleChannelIssue_def
      maintenanceIssue_def eolIssue_def versionCeilingIssue_def Let_def
      split: sum.splits option.splits)

lemma issue_id_form:
  assumes "detectUpgradeIssues clk inst life chan fetched = Inr iss" and "i \<in> set iss"
  shows "operatorName_issue i = name_inst inst
         \<and> id_issue i = name_inst inst @
             (if type_issue i = STALE_CHANNEL then ''-stale-channel''
              else if type_issue i = VERSION_CEILING then ''-version-ceiling''
              else if severity i = WARNING then ''-maintenance''
              else ''-eol'')"
proof -
  from assms(1) obtain updates ceiling where
    check: "versionCeilingCheck clk inst life updates = Inr ceiling"
    and iss: "iss = (if deprecated chan then [staleChannelIssue clk inst chan] else [])
        @ (if supportPhase life = MAINTENANCE_SUPPORT then [maintenanceIssue clk inst] else [])
        @ (if supportPhase life = END_OF_LIFE then [eolIssue clk inst] else []) @ ceiling"
    by (auto simp: detectUpgradeIssues_def Let_def split: sum.splits)
  from check have ceiling: "ceiling = [] \<or> ceiling =
      [versionCeilingIssue clk inst (extractVersionFromUpdate (updates ! 0)) (the (maxOCPVersion life))]"
    by (auto simp: versionCeilingCheck_def Let_def split: option.splits if_splits sum.splits)
  from iss assms(2) have "i = staleChannelIssue clk inst chan \<or> i = maintenanceIssue clk inst
      \<or> i = eolIssue clk inst \<or> i \<in> set ceiling"
    by (auto split: if_splits)
  with ceiling show ?thesis
    by (auto simp: staleChannelIssue_def maintenanceIssue_def eolIssue_def versionCeilingIssue_def)
qed

lemma map_sum_through:
  assumes "map_sum id (map f) a = map_sum id (map f) b" and "\<And>x. g (f x) = g x"
  shows "map_sum id (map g) a = map_sum id (map g) b"
proof -
  have through: "map g xs = map g (map f xs)" for xs
    by (simp add: assms(2))
  show ?thesis
  proof (cases a)
    case (Inl e)
    with assms(1) show ?thesis by (cases b) simp_all
  next
    case (Inr xs)
    with assms(1) obtain ys where b: "b = Inr ys" and same: "map f xs = map f ys"
      by (cases b) simp_all
    have "map g xs = map g (map f xs)" by (rule through)
    also have "\<dots> = map g (map f ys)" by (simp only: same)
    also have "\<dots> = map g ys" by (rule through [symmetric])
    finally have "map g xs = map g ys" .
    with Inr b show ?thesis by simp
  qed
qed

text \<open>
  Claim C7, as stated, fails in its last part: an issue id is not a function of the
  component name and the issue kind alone. The same operator gets the issue
  \<open>operator-x-maintenance\<close> in maintenance support and \<open>operator-x-eol\<close> at end of life,
  and both issues are of the kind \<open>lifecycle-expiring\<close>.
\<close>

theorem issue_id_counterexample:
  "map_sum id (map (\<lambda>i. (operatorName_issue i, type_issue i, id_issue i)))
     (detectUpgradeIssues sampleClock (sampleInstallation ''operator-x'' ''1.0.0'')
        (sampleLifecycle MAINTENANCE_SUPPORT None ''operator-x'' ''1.0.0'')
        (sampleChannel ''stable'' ''1.0.0'' False) (Inr []))
     = Inr [(''operator-x'', LIFECYCLE_EXPIRING, ''operator-x-maintenance'')]
   \<and> map_sum id (map (\<lambda>i. (operatorName_issue i, type_issue i, id_issue i)))
     (detectUpgradeIssues sampleClock (sampleInstallation ''operator-x'' ''1.0.0'')
        (sampleLifecycle END_OF_LIFE None ''operator-x'' ''1.0.0'')
        (sampleChannel ''stable'' ''1.0.0'' False) (Inr []))
     = Inr [(''operator-x'', LIFECYCLE_EXPIRING, ''operator-x-eol'')]"
  by (simp add: sample_eval lifecycle_eval Let_def)

text \<open>
  Claim C7, amended. Path generation is deterministic over the snapshot: at any two
  readings of the clock the generator fails alike or yields the same paths up to
  \<open>supportedUntil\<close>, so the same path ids and the same step sequences. Issue detection
  on the same inputs yields the same issues up to \<open>detectedAt\<close>, and each id is derived
  only from the component name, the issue kind and the severity.
\<close>

theorem generation_deterministic:
  "map_sum id (map (\<lambda>p. p\<lparr>supportedUntil := 0\<rparr>)) (generateUpgradePaths clk status)
     = map_sum id (map (\<lambda>p. p\<lparr>supportedUntil := 0\<rparr>)) (generateUpgradePaths clk' status)
   \<and> map_sum id (map (\<lambda>p. (id_path p, steps p))) (generateUpgradePaths clk status)
     = map_sum id (map (\<lambda>p. (id_path p, steps p))) (generateUpgradePaths clk' status)
   \<and> map_sum id (map (\<lambda>i. i\<lparr>detectedAt := 0\<rparr>)) (detectUpgradeIssues clk inst life chan fetched)
     = map_sum id (map (\<lambda>i. i\<lparr>detectedAt := 0\<rparr>)) (detectUpgradeIssues clk' inst life chan fetched)
   \<and> map_sum id (map id_issue) (detectUpgradeIssues clk inst life chan fetched)
     = map_sum id (map id_issue) (detectUpgradeIssues clk' inst life chan fetched)
   \<and> (detectUpgradeIssues clk inst life chan fetched = Inr iss \<and> i \<in> set iss \<longrightarrow>
        operatorName_issue i = name_inst inst
        \<and> id_issue i = name_inst inst @
            (if type_issue i = STALE_CHANNEL then ''-stale-channel''
             else if type_issue i = VERSION_CEILING then ''-version-ceiling''
             else if severity i = WARNING then ''-maintenance''
             else ''-eol''))"
proof -
  let ?blank = "\<lambda>p. p\<lparr>supportedUntil := 0\<rparr>"
  let ?read = "\<lambda>p. (id_path p, steps p)"
  have paths: "map_sum id (map ?blank) (generateUpgradePaths clk status)
     = map_sum id (map ?blank) (generateUpgradePaths clk' status)"
    by (rule paths_clock)
  from paths have reads: "map_sum id (map ?read) (generateUpgradePaths clk status)
     = map_sum id (map ?read) (generateUpgradePaths clk' status)"
    by (rule map_sum_through) simp
  let ?erase = "\<lambda>i. i\<lparr>detectedAt := 0\<rparr>"
  have found: "map_sum id (map ?erase) (detectUpgradeIssues clk inst life chan fetched)
     = map_sum id (map ?erase) (detectUpgradeIssues clk' inst life chan fetched)"
    by (rule issues_clock)
  from found have ids: "map_sum id (map id_issue) (detectUpgradeIssues clk inst life chan fetched)
     = map_sum id (map id_issue) (detectUpgradeIssues clk' inst life chan fetched)"
    by (rule map_sum_through) simp
  from paths reads found ids issue_id_form [of clk inst life chan fetched iss i]
  show ?thesis by blast
qed

theorem generation_deterministic_witness:
  "detectUpgradeIssues sampleClock (sampleInstallation ''operator-x'' ''1.0.0'')
        (sampleLifecycle END_OF_LIFE None ''operator-x'' ''1.0.0'')
        (sampleChannel ''stable'' ''1.0.0'' False) (Inr [])
     = Inr [eolIssue sampleClock (sampleInstallation ''operator-x'' ''1.0.0'')]
   \<and> type_issue (eolIssue sampleClock (sampleInstallation ''operator-x'' ''1.0.0'')) = LIFECYCLE_EXPIRING
   \<and> severity (eolIssue sampleClock (sampleInstallation ''operator-x'' ''1.0.0'')) = CRITICAL
   \<and> id_issue (eolIssue sampleClock (sampleInstallation ''operator-x'' ''1.0.0'')) = ''operator-x-eol''"
proof -
  let ?i = "eolIssue sampleClock (sampleInstallation ''operator-x'' ''1.0.0'')"
  have run: "detectUpgradeIssues sampleClock (sampleInstallation ''operator-x'' ''1.0.0'')
        (sampleLifecycle END_OF_LIFE None ''operator-x'' ''1.0.0'')
        (sampleChannel ''stable'' ''1.0.0'' False) (Inr []) = Inr [?i]"
    by (simp add: detectUpgradeIssues_def versionCeilingCheck_def sampleLifecycle_def
        sampleChannel_def Let_def)
  have kind: "type_issue ?i = LIFECYCLE_EXPIRING" and sev: "severity ?i = CRITICAL"
    by (simp_all add: eolIssue_def)
  have name: "name_inst (sampleInstallation ''operator-x'' ''1.0.0'') = ''operator-x''"
    by (simp add: sampleInstallation_def)
  from generation_deterministic [where clk = sampleClock
      and inst = "sampleInstallation ''operator-x'' ''1.0.0''"
      and life = "sampleLifecycle END_OF_LIFE None ''operator-x'' ''1.0.0''"
      and chan = "sampleChannel ''stable'' ''1.0.0'' False" and fetched = "Inr []"
      and iss = "[?i]" and i = ?i] run kind sev name
  have "id_issue ?i = ''operator-x-eol''" by simp
  with run kind sev show ?thesis by simp
qed

end
